theory Spec2Isabelle
  imports Complex_Main
begin

section \<open>Conventions\<close>

text \<open>
  The program is TypeScript. Its \<open>number\<close> values are modelled as HOL reals: rounding of
  IEEE doubles, infinities and NaN are outside the model, so every statement below about
  a numeric value is a statement about the exact arithmetic the source code writes down.
  Array indices and array lengths are natural numbers.
\<close>

section \<open>types.ts\<close>

text \<open>\<open>export type AppState = 'TREE' | 'SCATTERED'\<close>\<close>

datatype AppState = TREE | SCATTERED

text \<open>The argument type of \<open>onGesture\<close> / \<open>handleGesture\<close>: \<open>'SCATTER' | 'GATHER'\<close>.\<close>

datatype command = SCATTER | GATHER

section \<open>App.tsx: the morph progress controller\<close>

text \<open>
  \<open>const target = appState === 'SCATTERED' ? 1 : 0;\<close> (App.tsx, line 32).
\<close>

definition target :: "AppState \<Rightarrow> real" where
  "target appState = (if appState = SCATTERED then 1 else 0)"

text \<open>
  The state updater passed to \<open>setSmoothProgress\<close> inside \<open>animate\<close>
  (App.tsx, lines 35-39), as a function of the effect's \<open>target\<close> and the previous
  progress value.
\<close>

definition animate :: "real \<Rightarrow> real \<Rightarrow> real" where
  "animate tgt prev =
     (let diff = tgt - prev
      in if \<bar>diff\<bar> < 0.001 then tgt else prev + diff * 0.05)"

text \<open>\<open>toggleState\<close> (App.tsx, lines 158-160).\<close>

definition toggleState :: "AppState \<Rightarrow> AppState" where
  "toggleState prev = (if prev = TREE then SCATTERED else TREE)"

text \<open>
  \<open>handleGesture\<close> (App.tsx, lines 162-168): the function reads the component's
  \<open>appState\<close> and either calls \<open>setAppState\<close> or does nothing; the model returns the
  resulting state.
\<close>

definition handleGesture :: "command \<Rightarrow> AppState \<Rightarrow> AppState" where
  "handleGesture cmd appState =
     (if cmd = SCATTER \<and> appState \<noteq> SCATTERED then SCATTERED
      else if cmd = GATHER \<and> appState \<noteq> TREE then TREE
      else appState)"

section \<open>The rendering library's vector arithmetic\<close>

text \<open>
  \<open>THREE.Vector3\<close>, with its fields \<open>x\<close>, \<open>y\<close>, \<open>z\<close> named \<open>vx\<close>, \<open>vy\<close>, \<open>vz\<close>. The
  functions of this section belong to three.js, an external library the repository
  imports; they are written here as the library documents them.
\<close>

datatype Vector3 = Vector3 (vx: real) (vy: real) (vz: real)

text \<open>\<open>THREE.MathUtils.lerp(x, y, t)\<close>: \<open>(1 - t) * x + t * y\<close>.\<close>

definition lerp :: "real \<Rightarrow> real \<Rightarrow> real \<Rightarrow> real" where
  "lerp a b t = (1 - t) * a + t * b"

text \<open>\<open>new THREE.Vector3().lerpVectors(v1, v2, alpha)\<close>: \<open>v1 + (v2 - v1) * alpha\<close>, per field.\<close>

definition lerpVectors :: "Vector3 \<Rightarrow> Vector3 \<Rightarrow> real \<Rightarrow> Vector3" where
  "lerpVectors v1 v2 alpha =
     Vector3 (vx v1 + (vx v2 - vx v1) * alpha)
             (vy v1 + (vy v2 - vy v1) * alpha)
             (vz v1 + (vz v2 - vz v1) * alpha)"

text \<open>\<open>v.lerp(w, alpha)\<close>: \<open>v += (w - v) * alpha\<close>, per field.\<close>

definition vlerp :: "Vector3 \<Rightarrow> Vector3 \<Rightarrow> real \<Rightarrow> Vector3" where
  "vlerp v w alpha =
     Vector3 (vx v + (vx w - vx v) * alpha)
             (vy v + (vy w - vy v) * alpha)
             (vz v + (vz w - vz v) * alpha)"

text \<open>\<open>v.multiplyScalar(s)\<close>.\<close>

definition multiplyScalar :: "Vector3 \<Rightarrow> real \<Rightarrow> Vector3" where
  "multiplyScalar v s = Vector3 (vx v * s) (vy v * s) (vz v * s)"

text \<open>\<open>THREE.MathUtils.mapLinear(x, a1, a2, b1, b2)\<close>: \<open>b1 + (x - a1) * (b2 - b1) / (a2 - a1)\<close>.\<close>

definition mapLinear :: "real \<Rightarrow> real \<Rightarrow> real \<Rightarrow> real \<Rightarrow> real \<Rightarrow> real" where
  "mapLinear v a1 a2 b1 b2 = b1 + (v - a1) * (b2 - b1) / (a2 - a1)"

text \<open>GLSL \<open>mix(x, y, a)\<close> on \<open>vec3\<close>: \<open>x * (1 - a) + y * a\<close>, per field.\<close>

definition mix :: "Vector3 \<Rightarrow> Vector3 \<Rightarrow> real \<Rightarrow> Vector3" where
  "mix v w a =
     Vector3 (vx v * (1 - a) + vx w * a)
             (vy v * (1 - a) + vy w * a)
             (vz v * (1 - a) + vz w * a)"

section \<open>utils/math.ts: the position generators\<close>

definition TREE_HEIGHT :: real where "TREE_HEIGHT = 12"
definition TREE_RADIUS :: real where "TREE_RADIUS = 4"
definition SCATTER_RADIUS :: real where "SCATTER_RADIUS = 15"

text \<open>
  \<open>getTreePosition\<close> (math.ts, lines 11-21). The division by \<open>total\<close> is meaningful for
  \<open>total \<ge> 1\<close> only (the source yields a non-finite number at 0, HOL yields 0), so the
  statements about this function assume \<open>total \<ge> 1\<close>. (The parameter \<open>total\<close> is written
  \<open>total'\<close> throughout: \<open>total\<close> is a constant of HOL.)
\<close>

definition getTreePosition :: "nat \<Rightarrow> nat \<Rightarrow> Vector3" where
  "getTreePosition index total' =
     (let y = (real index / real total') * TREE_HEIGHT - (TREE_HEIGHT / 2);
          radius = ((TREE_HEIGHT / 2) - y) * (TREE_RADIUS / TREE_HEIGHT) * 1.5;
          angle = real index * 0.5
      in Vector3 (cos angle * radius) y (sin angle * radius))"

text \<open>
  The tree position as the specification words it, for comparison with the code: height
  \<open>y = (i/total) * H - H/2\<close>, a radius that shrinks linearly from the base radius
  \<open>R = 4\<close> at the bottom \<open>y = -H/2\<close> to 0 at the apex \<open>y = H/2\<close>, and the angle \<open>0.5 * i\<close>.
\<close>

definition treePosition_spec :: "nat \<Rightarrow> nat \<Rightarrow> Vector3" where
  "treePosition_spec i total' =
     (let y = (real i / real total') * 12 - 6;
          r = 4 * ((6 - y) / 12)
      in Vector3 (cos (0.5 * real i) * r) y (sin (0.5 * real i) * r))"

text \<open>
  \<open>Math.random()\<close> reads a source of random numbers. The source is modelled as the
  sequence of the draws still to come: a call returns the first and leaves the rest.
\<close>

type_synonym rng = "nat \<Rightarrow> real"

definition random :: "rng \<Rightarrow> real \<times> rng" where
  "random g = (g 0, \<lambda>n. g (Suc n))"

text \<open>
  \<open>getScatterPosition\<close> (math.ts, lines 26-36): three draws, in the order \<open>theta\<close>,
  \<open>phi\<close>, \<open>r\<close>; it returns the point and the remaining random source.
\<close>

definition getScatterPosition :: "nat \<Rightarrow> rng \<Rightarrow> Vector3 \<times> rng" where
  "getScatterPosition index g0 =
     (let (u1, g1) = random g0;
          theta = u1 * pi * 2;
          (u2, g2) = random g1;
          phi = arccos ((u2 * 2) - 1);
          (u3, g3) = random g2;
          r = 8 + u3 * SCATTER_RADIUS
      in (Vector3 (r * sin phi * cos theta) (r * sin phi * sin theta) (r * cos phi), g3))"

text \<open>
  \<open>getGalleryPosition\<close> (math.ts, lines 41-63). \<open>ringIndex\<close> and \<open>positionInRing\<close>
  are its local constants of these names. The orientation is what three.js computes by
  \<open>dummy.position.copy(pos); dummy.lookAt(0, 0, 0); dummy.rotation\<close>; that computation is
  the library's and is the parameter \<open>lookAt\<close>: from the object's position and the point
  to look at to the resulting rotation.
\<close>

definition ringIndex :: "nat \<Rightarrow> nat" where
  "ringIndex index = index div 8"

definition positionInRing :: "nat \<Rightarrow> nat" where
  "positionInRing index = index mod 8"

record 'r GalleryPlacement =
  pos :: Vector3
  rot :: 'r

definition getGalleryPosition ::
  "(Vector3 \<Rightarrow> Vector3 \<Rightarrow> 'r) \<Rightarrow> nat \<Rightarrow> nat \<Rightarrow> 'r GalleryPlacement" where
  "getGalleryPosition lookAt index total' =
     (let radius = 6;
          angleStep = (pi * 2) / real (min total' 8);
          angle = real (positionInRing index) * angleStep;
          y = real (ringIndex index) * 2.5 - 2;
          p = Vector3 (cos angle * radius) y (sin angle * radius)
      in \<lparr>pos = p, rot = lookAt p (Vector3 0 0 0)\<rparr>)"

section \<open>components/TreeAccessories.tsx: ornaments and gift boxes\<close>

definition ORNAMENT_COUNT :: nat where "ORNAMENT_COUNT = 180"
definition GIFT_COUNT :: nat where "GIFT_COUNT = 40"

text \<open>The elements of \<open>data\<close> in \<open>Ornaments\<close> and in \<open>GiftBoxes\<close>.\<close>

record Datum =
  treePos :: Vector3
  scatterPos :: Vector3
  scale :: real
  phase :: real
  color :: string

text \<open>
  \<open>new Array(n).fill(0).map((_, i) => f(i))\<close>, for an \<open>f\<close> that draws random numbers:
  the elements are built in index order, each from the random source the previous one
  left.
\<close>

fun mapIndexed :: "(nat \<Rightarrow> rng \<Rightarrow> 'a \<times> rng) \<Rightarrow> nat \<Rightarrow> nat \<Rightarrow> rng \<Rightarrow> 'a list" where
  "mapIndexed f i 0 g = []"
| "mapIndexed f i (Suc n) g = (let (a, g') = f i g in a # mapIndexed f (Suc i) n g')"

text \<open>The element function of \<open>Ornaments\<close>' \<open>data\<close> (TreeAccessories.tsx, lines 139-145).\<close>

definition ornamentDatum :: "nat \<Rightarrow> rng \<Rightarrow> Datum \<times> rng" where
  "ornamentDatum i g0 =
     (let tp = multiplyScalar (getTreePosition i ORNAMENT_COUNT) 1.05;
          (sp, g1) = getScatterPosition i g0;
          (u1, g2) = random g1;
          (u2, g3) = random g2;
          (u3, g4) = random g3
      in if u3 > 0.7
         then (\<lparr>treePos = tp, scatterPos = sp, scale = u1 * 0.3 + 0.2, phase = u2 * pi * 2,
                color = ''#D4AF37''\<rparr>, g4)
         else (let (u4, g5) = random g4
               in (\<lparr>treePos = tp, scatterPos = sp, scale = u1 * 0.3 + 0.2,
                    phase = u2 * pi * 2,
                    color = (if u4 > 0.5 then ''#C0C0C0'' else ''#B8860B'')\<rparr>, g5)))"

definition ornamentsData :: "rng \<Rightarrow> Datum list" where
  "ornamentsData g = mapIndexed ornamentDatum 0 ORNAMENT_COUNT g"

text \<open>The element function of \<open>GiftBoxes\<close>' \<open>data\<close> (TreeAccessories.tsx, lines 198-216).\<close>

definition giftDatum :: "nat \<Rightarrow> rng \<Rightarrow> Datum \<times> rng" where
  "giftDatum i g0 =
     (let p = real i / real GIFT_COUNT;
          adjustedIndex = i * 2;
          tp0 = getTreePosition adjustedIndex (GIFT_COUNT * 3);
          tp = Vector3 (vx tp0 * 1.2) (mapLinear p 0 1 (-5) 0) (vz tp0 * 1.2);
          (sp, g1) = getScatterPosition (i + 1000) g0;
          (u1, g2) = random g1;
          (u2, g3) = random g2;
          (u3, g4) = random g3
      in if u3 > 0.5
         then (\<lparr>treePos = tp, scatterPos = sp, scale = u1 * 0.4 + 0.3, phase = u2 * pi * 2,
                color = ''#8B0000''\<rparr>, g4)
         else (let (u4, g5) = random g4
               in (\<lparr>treePos = tp, scatterPos = sp, scale = u1 * 0.4 + 0.3,
                    phase = u2 * pi * 2,
                    color = (if u4 > 0.5 then ''#006400'' else ''#4B0082'')\<rparr>, g5)))"

definition giftBoxesData :: "rng \<Rightarrow> Datum list" where
  "giftBoxesData g = mapIndexed giftDatum 0 GIFT_COUNT g"

text \<open>
  \<open>tempObj\<close>, a \<open>THREE.Object3D\<close>: the position, the Euler rotation and the scale that
  \<open>updateMatrix()\<close> composes into its matrix. An instance matrix written by
  \<open>setMatrixAt(i, tempObj.matrix)\<close> is represented by the three values it was composed
  from.
\<close>

record Object3D =
  position :: Vector3
  rotation :: Vector3
  objScale :: Vector3

text \<open>
  The \<open>THREE.InstancedMesh\<close> behind \<open>meshRef\<close>: its instance matrices, the
  \<open>instanceMatrix.needsUpdate\<close> flag and the mesh's own \<open>rotation.y\<close>.
\<close>

record InstancedMesh =
  instanceMatrix :: "Object3D list"
  needsUpdate :: bool
  meshRotationY :: real

text \<open>The body of the loop in \<open>Ornaments\<close>' \<open>useFrame\<close> (TreeAccessories.tsx, lines 167-174).\<close>

definition ornamentInstance :: "Datum \<Rightarrow> real \<Rightarrow> real \<Rightarrow> Object3D" where
  "ornamentInstance d progress time =
     (let p0 = lerpVectors (treePos d) (scatterPos d) progress;
          p = Vector3 (vx p0) (vy p0 + sin (time + phase d) * 0.05) (vz p0)
      in \<lparr>position = p,
          rotation = Vector3 (time * 0.2) (time * 0.1) 0,
          objScale = Vector3 (scale d) (scale d) (scale d)\<rparr>)"

text \<open>
  \<open>Ornaments\<close>' \<open>useFrame\<close> callback (TreeAccessories.tsx, lines 162-179); \<open>None\<close> is a
  \<open>meshRef.current\<close> that is null.
\<close>

definition Ornaments_useFrame ::
  "InstancedMesh option \<Rightarrow> Datum list \<Rightarrow> real \<Rightarrow> real \<Rightarrow> InstancedMesh option" where
  "Ornaments_useFrame meshRef data progress time =
     (case meshRef of
        None \<Rightarrow> None
      | Some m \<Rightarrow>
          Some (m\<lparr>instanceMatrix :=
                     fold (\<lambda>i ms. ms[i := ornamentInstance (data ! i) progress time])
                       [0..<ORNAMENT_COUNT] (instanceMatrix m),
                   needsUpdate := True,
                   meshRotationY :=
                     (if progress < 0.5 then meshRotationY m + 0.002
                      else meshRotationY m)\<rparr>))"

text \<open>The body of the loop in \<open>GiftBoxes\<close>' \<open>useFrame\<close> (TreeAccessories.tsx, lines 239-251).\<close>

definition giftInstance :: "Datum \<Rightarrow> real \<Rightarrow> real \<Rightarrow> Object3D" where
  "giftInstance d progress time =
     (let p0 = lerpVectors (treePos d) (scatterPos d) progress;
          p = Vector3 (vx p0) (vy p0 + sin (time * 0.5 + phase d) * 0.02) (vz p0)
      in \<lparr>position = p,
          rotation = Vector3 (sin (time * 0.5 + phase d) * 0.1) (time * 0.5 + phase d) 0,
          objScale = Vector3 (scale d) (scale d) (scale d)\<rparr>)"

text \<open>\<open>GiftBoxes\<close>' \<open>useFrame\<close> callback (TreeAccessories.tsx, lines 234-255).\<close>

definition GiftBoxes_useFrame ::
  "InstancedMesh option \<Rightarrow> Datum list \<Rightarrow> real \<Rightarrow> real \<Rightarrow> InstancedMesh option" where
  "GiftBoxes_useFrame meshRef data progress time =
     (case meshRef of
        None \<Rightarrow> None
      | Some m \<Rightarrow>
          Some (m\<lparr>instanceMatrix :=
                     fold (\<lambda>i ms. ms[i := giftInstance (data ! i) progress time])
                       [0..<GIFT_COUNT] (instanceMatrix m),
                   needsUpdate := True,
                   meshRotationY :=
                     (if progress < 0.5 then meshRotationY m + 0.002
                      else meshRotationY m)\<rparr>))"

section \<open>components/Foliage.tsx: the foliage\<close>

text \<open>
  The \<open>THREE.Points\<close> behind \<open>Foliage\<close>'s \<open>meshRef\<close>: the two uniforms of its shader
  material and its \<open>rotation.y\<close>.
\<close>

record Points =
  uTime :: real
  uProgress :: real
  pointsRotationY :: real

text \<open>\<open>Foliage\<close>'s \<open>useFrame\<close> callback (Foliage.tsx, lines 116-132).\<close>

definition Foliage_useFrame :: "Points option \<Rightarrow> real \<Rightarrow> real \<Rightarrow> Points option" where
  "Foliage_useFrame meshRef progress elapsedTime =
     (case meshRef of
        None \<Rightarrow> None
      | Some m \<Rightarrow>
          Some (m\<lparr>uTime := elapsedTime,
                   uProgress := lerp (uProgress m) progress 0.1,
                   pointsRotationY :=
                     (if progress < 0.5 then pointsRotationY m + 0.002
                      else pointsRotationY m)\<rparr>))"

text \<open>
  The position \<open>pos\<close> the vertex shader computes (Foliage.tsx, lines 19-32) from the
  attributes \<open>position\<close> (the tree position) and \<open>aTargetPos\<close> (the scatter position).
\<close>

definition vertexShader_pos :: "Vector3 \<Rightarrow> Vector3 \<Rightarrow> real \<Rightarrow> real \<Rightarrow> Vector3" where
  "vertexShader_pos startPos endPos uProgress' uTime' =
     (let p = mix startPos endPos uProgress'
      in if uProgress' < 0.5
         then Vector3 (vx p + sin (uTime' * 1.5 + vy p) * 0.05) (vy p)
                      (vz p + cos (uTime' * 1.5 + vy p) * 0.05)
         else p)"

section \<open>components/Foliage.tsx: the photo gallery\<close>

text \<open>
  \<open>treePos\<close> of a \<open>PhotoItem\<close> (Foliage.tsx, lines 184-186): the tree position of index
  \<open>index * 30\<close> among \<open>total * 30\<close>, shifted up by 2.
\<close>

definition photoTreePos :: "nat \<Rightarrow> nat \<Rightarrow> Vector3" where
  "photoTreePos index total' =
     (let treePosVec = getTreePosition (index * 30) (total' * 30)
      in Vector3 (vx treePosVec) (vy treePosVec + 2) (vz treePosVec))"

text \<open>
  The \<open>THREE.Group\<close> behind a \<open>PhotoItem\<close>'s \<open>groupRef\<close>: its position and its uniform
  scale. Its orientation, which lines 203-210 update by the library's quaternion
  \<open>slerp\<close>, is not part of the record.
\<close>

record Group =
  groupPosition :: Vector3
  groupScale :: real

text \<open>
  The target position of a frame (Foliage.tsx, lines 195-198) and the \<open>useFrame\<close> callback
  of a \<open>PhotoItem\<close> (lines 191-218), without the orientation. The gallery position does
  not depend on the library's \<open>lookAt\<close>, which is given a dummy here.
\<close>

definition photoTargetPos :: "nat \<Rightarrow> nat \<Rightarrow> real \<Rightarrow> real \<Rightarrow> Vector3" where
  "photoTargetPos index total' progress elapsedTime =
     (let galleryPos = pos (getGalleryPosition (\<lambda>p c. ()) index total');
          t0 = lerpVectors (photoTreePos index total') galleryPos progress
      in Vector3 (vx t0) (vy t0 + sin (elapsedTime + real index) * 0.05) (vz t0))"

definition PhotoItem_useFrame ::
  "Group option \<Rightarrow> nat \<Rightarrow> nat \<Rightarrow> real \<Rightarrow> real \<Rightarrow> Group option" where
  "PhotoItem_useFrame groupRef index total' progress elapsedTime =
     (case groupRef of
        None \<Rightarrow> None
      | Some grp \<Rightarrow>
          Some (grp\<lparr>groupPosition :=
                       vlerp (groupPosition grp)
                         (photoTargetPos index total' progress elapsedTime) 0.1,
                     groupScale := lerp 0.8 2.5 progress\<rparr>))"

section \<open>App.tsx: photo upload\<close>

text \<open>
  \<open>PhotoData\<close> (types.ts); its field \<open>id\<close> is named \<open>photoId\<close>. \<open>isPlaceholder\<close> is
  optional in the source: \<open>None\<close> is the absent field, and a test \<open>if (p.isPlaceholder)\<close>
  succeeds for \<open>Some True\<close> only.
\<close>

record PhotoData =
  photoId :: string
  url :: string
  aspectRatio :: real
  isPlaceholder :: "bool option"

definition truthy :: "bool option \<Rightarrow> bool" where
  "truthy b = (b = Some True)"

definition PLACEHOLDER_URL :: string where
  "PLACEHOLDER_URL =
     ''data:image/png;base64,iVBORw0KGgoAAAANSUhEUgAAAAEAAAABCAYAAAAfFcSJAAAADUlEQVR42mNk+M9QDwADhgGAWjR9awAAAABJRU5ErkJggg==''"

definition MAX_PLACEHOLDERS :: nat where "MAX_PLACEHOLDERS = 8"

text \<open>The decimal digits of a number, as the template literal \<open>`placeholder-${i}`\<close> prints it.\<close>

fun decimal :: "nat \<Rightarrow> string" where
  "decimal n =
     (if n < 10 then [char_of (48 + n)]
      else decimal (n div 10) @ [char_of (48 + n mod 10)])"

declare decimal.simps [simp del]

definition DEFAULT_PHOTOS :: "PhotoData list" where
  "DEFAULT_PHOTOS =
     map (\<lambda>i. \<lparr>photoId = ''placeholder-'' @ decimal i, url = PLACEHOLDER_URL,
                aspectRatio = 1, isPlaceholder = Some True\<rparr>)
       [0..<MAX_PLACEHOLDERS]"

text \<open>
  The object literal of App.tsx, lines 125-130 and 137-142, for the file of index \<open>fileIdx\<close>. Its id
  is \<open>Math.random().toString(36).substr(2, 9)\<close> and its url is
  \<open>URL.createObjectURL(files[fileIdx])\<close>; both come from the browser. Exactly one id is
  drawn for each file, in the order of the files, so \<open>ids k\<close> stands for the id drawn for
  the file of index \<open>k\<close>, and \<open>createObjectURL\<close> for the browser's function.
\<close>

definition newPhoto :: "(nat \<Rightarrow> string) \<Rightarrow> ('f \<Rightarrow> string) \<Rightarrow> 'f list \<Rightarrow> nat \<Rightarrow> PhotoData" where
  "newPhoto ids createObjectURL files fileIdx =
     \<lparr>photoId = ids fileIdx, url = createObjectURL (files ! fileIdx), aspectRatio = 1,
      isPlaceholder = Some False\<rparr>"

text \<open>
  The first loop of \<open>handlePhotoUpload\<close> (App.tsx, lines 123-133), from the loop variable \<open>i\<close>, the
  counter \<open>fileIdx\<close> and the array \<open>next\<close>; it returns the array and the counter.
\<close>

function fillPlaceholders ::
  "(nat \<Rightarrow> string) \<Rightarrow> ('f \<Rightarrow> string) \<Rightarrow> 'f list \<Rightarrow> nat \<Rightarrow> nat \<Rightarrow> PhotoData list
     \<Rightarrow> PhotoData list \<times> nat" where
  "fillPlaceholders ids createObjectURL files i fileIdx next =
     (if i < length next \<and> fileIdx < length files
      then (if truthy (isPlaceholder (next ! i))
            then fillPlaceholders ids createObjectURL files (i + 1) (fileIdx + 1)
                   (next[i := newPhoto ids createObjectURL files fileIdx])
            else fillPlaceholders ids createObjectURL files (i + 1) fileIdx next)
      else (next, fileIdx))"
  by pat_completeness auto
termination
  by (relation "measure (\<lambda>(ids, createObjectURL, files, i, fileIdx, next). length next - i)")
     auto

declare fillPlaceholders.simps [simp del]

text \<open>The second loop of \<open>handlePhotoUpload\<close> (App.tsx, lines 136-144).\<close>

function appendRemaining ::
  "(nat \<Rightarrow> string) \<Rightarrow> ('f \<Rightarrow> string) \<Rightarrow> 'f list \<Rightarrow> nat \<Rightarrow> PhotoData list \<Rightarrow> PhotoData list"
  where
  "appendRemaining ids createObjectURL files fileIdx next =
     (if fileIdx < length files
      then appendRemaining ids createObjectURL files (fileIdx + 1)
             (next @ [newPhoto ids createObjectURL files fileIdx])
      else next)"
  by pat_completeness auto
termination
  by (relation "measure (\<lambda>(ids, createObjectURL, files, fileIdx, next). length files - fileIdx)")
     auto

declare appendRemaining.simps [simp del]

text \<open>
  \<open>handlePhotoUpload\<close> (App.tsx, lines 115-148) as the new value of \<open>photos\<close>; \<open>None\<close> is an
  \<open>e.target.files\<close> that is null.
\<close>

definition handlePhotoUpload ::
  "(nat \<Rightarrow> string) \<Rightarrow> ('f \<Rightarrow> string) \<Rightarrow> 'f list option \<Rightarrow> PhotoData list \<Rightarrow> PhotoData list"
  where
  "handlePhotoUpload ids createObjectURL targetFiles prev =
     (case targetFiles of
        None \<Rightarrow> prev
      | Some files \<Rightarrow>
          if length files > 0
          then (let (next, fileIdx) = fillPlaceholders ids createObjectURL files 0 0 prev
                in appendRemaining ids createObjectURL files fileIdx next)
          else prev)"

text \<open>
  For the statements about the upload: the number of placeholders of \<open>xs\<close> at the indices
  from \<open>i\<close> up to, not including, \<open>j\<close>.
\<close>

definition placeholdersBetween :: "PhotoData list \<Rightarrow> nat \<Rightarrow> nat \<Rightarrow> nat" where
  "placeholdersBetween xs i j =
     length (filter (\<lambda>l. truthy (isPlaceholder (xs ! l))) [i..<j])"

section \<open>components/GestureController.tsx\<close>

text \<open>
  A category of the classifier's result (\<open>categoryName\<close>, \<open>score\<close>) and the part of the
  result of \<open>recognizeForVideo\<close> that the component reads for its commands: \<open>gestures\<close>, a
  list of ranked categories for each detected hand. The classifier is MediaPipe's, an
  external library: its result for a frame is an input of the model.
\<close>

record Category =
  categoryName :: string
  score :: real

record GestureRecognizerResult =
  gestures :: "Category list list"

text \<open>
  The state of the component: its React state (\<open>enabled\<close>, \<open>loading\<close>,
  \<open>detectedGesture\<close>), its refs (\<open>recognizerRef\<close>, \<open>videoRef\<close> and \<open>canvasRef\<close> as "is not
  null", \<open>lastVideoTimeRef\<close>), and of the video element whether a stream is attached
  (\<open>srcObject\<close>) and whether the \<open>onloadedmetadata\<close> handler is set. Which of \<open>videoRef\<close>
  and \<open>canvasRef\<close> are set is decided by React's rendering (lines 149-173 render the two
  elements while \<open>enabled\<close> holds); the model takes them as they are in the state.
\<close>

record GestureController =
  enabled :: bool
  loading :: bool
  detectedGesture :: string
  recognizerRef :: bool
  videoRef :: bool
  canvasRef :: bool
  lastVideoTimeRef :: real
  srcObject :: bool
  onloadedmetadata :: bool

text \<open>The component as it is first rendered (GestureController.tsx, lines 13-19).\<close>

definition initialGesture :: GestureController where
  "initialGesture =
     \<lparr>enabled = False, loading = False, detectedGesture = ''None'', recognizerRef = False,
      videoRef = False, canvasRef = False, lastVideoTimeRef = - 1, srcObject = False,
      onloadedmetadata = False\<rparr>"

datatype error = TypeError

text \<open>
  \<open>loadModel\<close> (lines 23-46), run by the effect of line 48 when \<open>active\<close> holds and no
  recognizer is loaded; \<open>ok\<close> tells whether the two awaited library calls succeeded. A
  failure is caught and logged, and \<open>finally\<close> resets \<open>loading\<close>.
\<close>

definition loadModel :: "bool \<Rightarrow> GestureController \<Rightarrow> GestureController" where
  "loadModel ok g =
     (if ok then g\<lparr>recognizerRef := True, loading := False\<rparr> else g\<lparr>loading := False\<rparr>)"

definition loadModelEffect :: "bool \<Rightarrow> bool \<Rightarrow> GestureController \<Rightarrow> GestureController" where
  "loadModelEffect active ok g =
     (if active \<and> \<not> recognizerRef g then loadModel ok (g\<lparr>loading := True\<rparr>) else g)"

text \<open>
  \<open>startCamera\<close> (lines 54-76); \<open>granted\<close> tells whether \<open>getUserMedia\<close> resolved with a
  stream. A rejection is caught and logged.
\<close>

definition startCamera :: "bool \<Rightarrow> GestureController \<Rightarrow> GestureController" where
  "startCamera granted g =
     (if \<not> recognizerRef g then g
      else if granted
      then (if videoRef g then g\<lparr>srcObject := True, onloadedmetadata := True\<rparr> else g)
      else g)"

text \<open>\<open>stopCamera\<close> (lines 78-86).\<close>

definition stopCamera :: "GestureController \<Rightarrow> GestureController" where
  "stopCamera g =
     (if videoRef g \<and> srcObject g then g\<lparr>srcObject := False, enabled := False\<rparr> else g)"

text \<open>
  \<open>predictWebcam\<close> (lines 88-137) for a frame: \<open>currentTime\<close> is \<open>video.currentTime\<close> and
  \<open>results\<close> is what the classifier returns for the frame. The result is the new state
  and the commands passed to \<open>onGesture\<close>, in order; \<open>results.gestures[0][0]\<close> of an empty
  \<open>results.gestures[0]\<close> is undefined and reading its \<open>categoryName\<close> throws, which is
  \<open>Inl\<close> with the state at the throw. The drawing on the canvas (lines 100-113) and the
  request for the next animation frame (lines 134-136) are not modelled: the frames
  processed are the frames the model is given.
\<close>

definition predictWebcam ::
  "GestureController \<Rightarrow> real \<Rightarrow> GestureRecognizerResult
     \<Rightarrow> (error \<times> GestureController) + (GestureController \<times> command list)" where
  "predictWebcam g currentTime results =
     (if \<not> videoRef g \<or> \<not> canvasRef g \<or> \<not> recognizerRef g then Inr (g, [])
      else if currentTime \<noteq> lastVideoTimeRef g
      then (let g1 = g\<lparr>lastVideoTimeRef := currentTime\<rparr>
            in if length (gestures results) > 0
               then (case gestures results ! 0 of
                       [] \<Rightarrow> Inl (TypeError, g1)
                     | gesture # _ \<Rightarrow>
                         if score gesture > 0.5
                         then (let g2 = g1\<lparr>detectedGesture := categoryName gesture\<rparr>
                               in if categoryName gesture = ''Open_Palm''
                                  then Inr (g2, [SCATTER])
                                  else if categoryName gesture = ''Closed_Fist''
                                  then Inr (g2, [GATHER])
                                  else Inr (g2, []))
                         else Inr (g1, []))
               else Inr (g1\<lparr>detectedGesture := ''None''\<rparr>, []))
      else Inr (g, []))"

text \<open>
  The \<open>onloadedmetadata\<close> handler that \<open>startCamera\<close> sets (lines 67-71): it starts the
  video, sets \<open>enabled\<close> and calls \<open>predictWebcam\<close>. It runs only if it was set.
\<close>

definition loadedmetadata ::
  "GestureController \<Rightarrow> real \<Rightarrow> GestureRecognizerResult
     \<Rightarrow> (error \<times> GestureController) + (GestureController \<times> command list)" where
  "loadedmetadata g currentTime results =
     (if onloadedmetadata g then predictWebcam (g\<lparr>enabled := True\<rparr>) currentTime results
      else Inr (g, []))"

text \<open>
  The successive calls of \<open>predictWebcam\<close> for a list of frames, each on the state the
  call before it left, with the commands passed to \<open>onGesture\<close> in order. A call that
  throws ends the sequence.
\<close>

fun processFrames ::
  "GestureController \<Rightarrow> (real \<times> GestureRecognizerResult) list \<Rightarrow> GestureController \<times> command list"
  where
  "processFrames g [] = (g, [])"
| "processFrames g ((t, results) # frames) =
     (case predictWebcam g t results of
        Inl (e, g') \<Rightarrow> (g', [])
      | Inr (g', cmds) \<Rightarrow> (let (g'', cmds') = processFrames g' frames in (g'', cmds @ cmds')))"

text \<open>
  For the statements about the pipeline: the number of timestamps of a list that differ
  from the one before them (the first from \<open>prev\<close>); whether the top-ranked category of
  the first hand is the open hand with a score above 0.5; and whether the guard of line 89
  lets a call pass.
\<close>

fun timestampChanges :: "real \<Rightarrow> real list \<Rightarrow> nat" where
  "timestampChanges prev [] = 0"
| "timestampChanges prev (t # ts) = (if t \<noteq> prev then 1 else 0) + timestampChanges t ts"

definition openPalm :: "GestureRecognizerResult \<Rightarrow> bool" where
  "openPalm results =
     (case gestures results of
        (c # cs) # hs \<Rightarrow> score c > 0.5 \<and> categoryName c = ''Open_Palm''
      | _ \<Rightarrow> False)"

definition refsSet :: "GestureController \<Rightarrow> bool" where
  "refsSet g = (videoRef g \<and> canvasRef g \<and> recognizerRef g)"

section \<open>The application: controller and gesture component together\<close>

text \<open>
  What can happen to the gesture component: the model finished loading (or failed), the
  user asked for the camera (granted or denied), the video's metadata loaded, an animation
  frame arrived, the user stopped the camera. The frame events carry \<open>video.currentTime\<close>
  and the classifier's result.
\<close>

datatype gestureEvent =
    ModelLoad bool
  | CameraRequest bool
  | MetadataLoaded real GestureRecognizerResult
  | Frame real GestureRecognizerResult
  | CameraStop

text \<open>The new state of the component and the commands it passes to \<open>onGesture\<close>.\<close>

definition settle ::
  "(error \<times> GestureController) + (GestureController \<times> command list)
     \<Rightarrow> GestureController \<times> command list" where
  "settle r = (case r of Inl (e, g) \<Rightarrow> (g, []) | Inr gc \<Rightarrow> gc)"

fun gestureStep :: "gestureEvent \<Rightarrow> GestureController \<Rightarrow> GestureController \<times> command list" where
  "gestureStep (ModelLoad ok) g = (loadModelEffect True ok g, [])"
| "gestureStep (CameraRequest granted) g = (startCamera granted g, [])"
| "gestureStep (MetadataLoaded t results) g = settle (loadedmetadata g t results)"
| "gestureStep (Frame t results) g = settle (predictWebcam g t results)"
| "gestureStep CameraStop g = (stopCamera g, [])"

text \<open>
  The application state: the target state \<open>appState\<close>, the progress \<open>smoothProgress\<close> of
  \<open>MainScene\<close>, the photos and the gesture component. \<open>App\<close> renders \<open>GestureController\<close>
  with \<open>active={true}\<close> and \<open>onGesture={handleGesture}\<close>: a command of the component is
  handled by \<open>handleGesture\<close> on the target state of that moment.
\<close>

record App =
  appState :: AppState
  smoothProgress :: real
  photos :: "PhotoData list"
  gesture :: GestureController

datatype appEvent =
    ToggleClick
  | AnimationFrame
  | Gesture gestureEvent

fun appStep :: "appEvent \<Rightarrow> App \<Rightarrow> App" where
  "appStep ToggleClick a = a\<lparr>appState := toggleState (appState a)\<rparr>"
| "appStep AnimationFrame a =
     a\<lparr>smoothProgress := animate (target (appState a)) (smoothProgress a)\<rparr>"
| "appStep (Gesture ev) a =
     (let (g, cmds) = gestureStep ev (gesture a)
      in a\<lparr>gesture := g, appState := fold handleGesture cmds (appState a)\<rparr>)"

section \<open>Properties of the progress step\<close>

lemma animate_fixed: "animate t t = t"
  by (simp add: animate_def)

lemma animate_snap: "\<bar>t - p\<bar> < 0.001 \<Longrightarrow> animate t p = t"
  by (simp add: animate_def)

lemma animate_move: "\<not> \<bar>t - p\<bar> < 0.001 \<Longrightarrow> animate t p = p + (t - p) * 0.05"
  by (simp add: animate_def)

lemma animate_remaining:
  "animate t p = t \<or> t - animate t p = 0.95 * (t - p)"
proof (cases "\<bar>t - p\<bar> < 0.001")
  case True
  then show ?thesis by (simp add: animate_snap)
next
  case False
  then have "animate t p = p + (t - p) * 0.05" by (rule animate_move)
  then have "t - animate t p = 0.95 * (t - p)" by (simp add: field_simps)
  then show ?thesis ..
qed

lemma animate_funpow_fixed: "(animate t ^^ n) t = t"
  by (induction n) (simp_all add: animate_fixed)

lemma animate_funpow_remaining:
  "(animate t ^^ n) p = t \<or> t - (animate t ^^ n) p = 0.95 ^ n * (t - p)"
proof (induction n)
  case 0
  show ?case by simp
next
  case (Suc n)
  let ?q = "(animate t ^^ n) p"
  from Suc show ?case
  proof
    assume "?q = t"
    then show ?thesis by (simp add: animate_fixed)
  next
    assume r: "t - ?q = 0.95 ^ n * (t - p)"
    from animate_remaining [of t ?q] show ?thesis
    proof
      assume "animate t ?q = t"
      then show ?thesis by simp
    next
      assume "t - animate t ?q = 0.95 * (t - ?q)"
      with r show ?thesis by simp
    qed
  qed
qed

lemma decay_135: "(0.95 :: real) ^ 135 < 0.001"
  by (simp add: power_divide)

lemma small_product:
  fixes a c d e :: real
  assumes "a = 0 \<or> a = c * d" and "d \<le> 1" and "c < e" and "0 \<le> c" and "0 < e"
  shows "a < e"
proof -
  from assms have "c * d \<le> c * 1" by (intro mult_left_mono) simp_all
  with assms show ?thesis by auto
qed

lemma animate_reaches_136:
  assumes d: "\<bar>t - p\<bar> \<le> 1"
  shows "(animate t ^^ 136) p = t"
proof -
  let ?q = "(animate t ^^ 135) p"
  from animate_funpow_remaining [where t = t and n = 135 and p = p]
  have "\<bar>t - ?q\<bar> = 0 \<or> \<bar>t - ?q\<bar> = 0.95 ^ 135 * \<bar>t - p\<bar>"
    by (auto simp add: abs_mult)
  then have "\<bar>t - ?q\<bar> < 0.001"
    using d decay_135 by (rule small_product) simp_all
  then have "animate t ?q = t" by (rule animate_snap)
  moreover have "(animate t ^^ 136) p = animate t ?q"
    by (simp add: numeral_eq_Suc)
  ultimately show ?thesis by simp
qed

lemma animate_reaches:
  assumes d: "\<bar>t - p\<bar> \<le> 1" and n: "136 \<le> n"
  shows "(animate t ^^ n) p = t"
proof -
  from n obtain k where "n = k + 136" by (metis le_add_diff_inverse2)
  then have "(animate t ^^ n) p = (animate t ^^ k) ((animate t ^^ 136) p)"
    by (simp add: funpow_add)
  with d show ?thesis by (simp add: animate_reaches_136 animate_funpow_fixed)
qed

text \<open>
  C1. For a progress value \<open>p\<close> in \<open>[0,1]\<close> and a target \<open>t\<close> that is 0 or 1, one tick
  returns exactly \<open>t\<close> when \<open>|t - p| < 0.001\<close> and otherwise adds 5% of the remaining
  distance \<open>t - p\<close> to \<open>p\<close>; the result lies between \<open>p\<close> and \<open>t\<close> (no overshoot), is no
  further from \<open>t\<close> than \<open>p\<close> was, and stays in \<open>[0,1]\<close>; and from every start in \<open>[0,1]\<close>
  the iteration is exactly at \<open>t\<close> after 136 ticks and at every later tick.
\<close>

theorem C1_progress_step:
  assumes "0 \<le> p" and "p \<le> 1" and "t = 0 \<or> t = 1"
  shows "(\<bar>t - p\<bar> < 0.001 \<longrightarrow> animate t p = t)
       \<and> (\<not> \<bar>t - p\<bar> < 0.001 \<longrightarrow> animate t p = p + 0.05 * (t - p))
       \<and> min p t \<le> animate t p \<and> animate t p \<le> max p t
       \<and> \<bar>t - animate t p\<bar> \<le> \<bar>t - p\<bar>
       \<and> 0 \<le> animate t p \<and> animate t p \<le> 1
       \<and> (\<forall>n\<ge>136. (animate t ^^ n) p = t)"
proof -
  have a: "\<bar>t - p\<bar> < 0.001 \<longrightarrow> animate t p = t"
    by (simp add: animate_snap)
  have b: "\<not> \<bar>t - p\<bar> < 0.001 \<longrightarrow> animate t p = p + 0.05 * (t - p)"
    by (simp add: animate_move)
  have "animate t p = t \<or> animate t p = p + (t - p) / 20"
    by (cases "\<bar>t - p\<bar> < 0.001") (simp_all add: animate_snap animate_move)
  then have c: "min p t \<le> animate t p \<and> animate t p \<le> max p t"
    and d: "\<bar>t - animate t p\<bar> \<le> \<bar>t - p\<bar>"
    by argo+
  from c assms have e: "0 \<le> animate t p \<and> animate t p \<le> 1"
    by auto
  from assms have "\<bar>t - p\<bar> \<le> 1" by auto
  then have f: "\<forall>n\<ge>136. (animate t ^^ n) p = t"
    by (simp add: animate_reaches)
  from a b c d e f show ?thesis by blast
qed

theorem C1_progress_step_witness:
  "animate 1 (1/2) = 21/40 \<and> animate 1 (9999/10000) = 1
   \<and> (animate 1 ^^ 136) (1/2) = 1"
proof -
  have h: "(0::real) \<le> 1/2" "(1/2::real) \<le> 1" "(1::real) = 0 \<or> (1::real) = 1"
    by simp_all
  from C1_progress_step [OF h]
  have "animate 1 (1/2) = 1/2 + 0.05 * (1 - 1/2)" and "(animate 1 ^^ 136) (1/2) = 1"
    by simp_all
  moreover from C1_progress_step [of "9999/10000" 1]
  have "animate 1 (9999/10000) = 1" by simp
  ultimately show ?thesis by simp
qed

text \<open>
  C7. \<open>handleGesture\<close> leaves the target unchanged when the command asks for the state
  the target already has, and applying SCATTER twice gives the same state as applying it
  once, namely SCATTERED, whatever the state was before.
\<close>

theorem C7_handleGesture_idempotent:
  "handleGesture SCATTER SCATTERED = SCATTERED
   \<and> handleGesture GATHER TREE = TREE
   \<and> handleGesture SCATTER (handleGesture SCATTER s) = handleGesture SCATTER s
   \<and> handleGesture SCATTER s = SCATTERED
   \<and> handleGesture GATHER (handleGesture GATHER s) = handleGesture GATHER s
   \<and> handleGesture GATHER s = TREE"
  by (cases s) (simp_all add: handleGesture_def)

section \<open>Properties of the position generators\<close>

lemma circle_radius: "(cos a * r)\<^sup>2 + (sin a * r)\<^sup>2 = (r::real)\<^sup>2"
proof -
  have "(cos a * r)\<^sup>2 + (sin a * r)\<^sup>2 = r\<^sup>2 * (cos a)\<^sup>2 + r\<^sup>2 * (sin a)\<^sup>2"
    by (simp add: power_mult_distrib)
  also have "\<dots> = r\<^sup>2 * ((cos a)\<^sup>2 + (sin a)\<^sup>2)"
    by (simp only: distrib_left)
  also have "\<dots> = r\<^sup>2" by simp
  finally show ?thesis .
qed

lemma getTreePosition_eq:
  "getTreePosition i n =
     Vector3 (cos (0.5 * real i) * ((6 - (real i / real n * 12 - 6)) * 0.5))
             (real i / real n * 12 - 6)
             (sin (0.5 * real i) * ((6 - (real i / real n * 12 - 6)) * 0.5))"
  by (simp add: getTreePosition_def TREE_HEIGHT_def TREE_RADIUS_def Let_def mult.commute)

lemma tree_height_range:
  assumes "1 \<le> n" and "i \<le> n"
  shows "- 6 \<le> real i / real n * 12 - 6 \<and> real i / real n * 12 - 6 \<le> 6"
proof -
  from assms have "0 \<le> real i / real n" and "real i / real n \<le> 1"
    by (simp_all add: divide_le_eq_1)
  then show ?thesis by argo
qed

text \<open>
  C3, as stated, puts the base radius at 4. For the first of the 180 ornaments the code
  returns the point \<open>(6, -6, 0)\<close>, at distance 6 from the axis, where the specification's
  cone has \<open>(4, -6, 0)\<close>.
\<close>

theorem C3_counterexample:
  "getTreePosition 0 ORNAMENT_COUNT = Vector3 6 (- 6) 0
   \<and> treePosition_spec 0 ORNAMENT_COUNT = Vector3 4 (- 6) 0
   \<and> getTreePosition 0 ORNAMENT_COUNT \<noteq> treePosition_spec 0 ORNAMENT_COUNT"
  by (simp add: getTreePosition_def treePosition_spec_def TREE_HEIGHT_def TREE_RADIUS_def
      ORNAMENT_COUNT_def Let_def)

text \<open>
  C3 (as the code has it). For \<open>total \<ge> 1\<close>, \<open>getTreePosition i total\<close> is the point
  \<open>(cos(0.5 i) r, y, sin(0.5 i) r)\<close> with \<open>y = (i/total) * 12 - 6\<close> and \<open>r = (6 - y) * 0.5\<close>:
  the angle grows by 0.5 per index, the distance from the vertical axis is \<open>r\<close>, and \<open>r\<close>
  shrinks linearly from 6 (1.5 times \<open>TREE_RADIUS = 4\<close>) at the bottom \<open>y = -6\<close> to 0 at
  the apex \<open>y = 6\<close>; index 0 is at the bottom and index \<open>total\<close> would be at the apex.
\<close>

theorem C3_tree_position:
  assumes "1 \<le> total'"
    and y: "y = real i / real total' * 12 - 6" and r: "r = (6 - y) * 0.5"
    and y': "y' = real (Suc i) / real total' * 12 - 6" and r': "r' = (6 - y') * 0.5"
  shows "getTreePosition i total' = Vector3 (cos (0.5 * real i) * r) y (sin (0.5 * real i) * r)
       \<and> getTreePosition (Suc i) total' =
           Vector3 (cos (0.5 * real i + 0.5) * r') y' (sin (0.5 * real i + 0.5) * r')
       \<and> (vx (getTreePosition i total'))\<^sup>2 + (vz (getTreePosition i total'))\<^sup>2 = r\<^sup>2
       \<and> (y = - 6 \<longrightarrow> r = 6) \<and> (y = 6 \<longrightarrow> r = 0)
       \<and> (i \<le> total' \<longrightarrow> - 6 \<le> y \<and> y \<le> 6 \<and> 0 \<le> r \<and> r \<le> 6)
       \<and> vy (getTreePosition 0 total') = - 6 \<and> vy (getTreePosition total' total') = 6"
proof -
  have p1: "getTreePosition i total' =
      Vector3 (cos (0.5 * real i) * r) y (sin (0.5 * real i) * r)"
    unfolding r y by (rule getTreePosition_eq)
  have "0.5 * real (Suc i) = 0.5 * real i + 0.5" by simp
  with getTreePosition_eq [of "Suc i" total']
  have p2: "getTreePosition (Suc i) total' =
      Vector3 (cos (0.5 * real i + 0.5) * r') y' (sin (0.5 * real i + 0.5) * r')"
    unfolding r' y' by (simp only:)
  have p3: "(vx (getTreePosition i total'))\<^sup>2 + (vz (getTreePosition i total'))\<^sup>2 = r\<^sup>2"
    by (simp only: p1 Vector3.sel circle_radius)
  have p4: "(y = - 6 \<longrightarrow> r = 6) \<and> (y = 6 \<longrightarrow> r = 0)"
    by (simp add: r)
  have p5: "i \<le> total' \<longrightarrow> - 6 \<le> y \<and> y \<le> 6 \<and> 0 \<le> r \<and> r \<le> 6"
  proof
    assume "i \<le> total'"
    with assms(1) have "- 6 \<le> y \<and> y \<le> 6"
      unfolding y by (rule tree_height_range)
    then show "- 6 \<le> y \<and> y \<le> 6 \<and> 0 \<le> r \<and> r \<le> 6"
      by (simp add: r)
  qed
  have p6: "vy (getTreePosition 0 total') = - 6"
    by (simp add: getTreePosition_eq)
  have p7: "vy (getTreePosition total' total') = 6"
    using assms(1) by (simp add: getTreePosition_eq)
  from p1 p2 p3 p4 p5 p6 p7 show ?thesis by blast
qed

theorem C3_tree_position_witness:
  "getTreePosition 1 2 = Vector3 (cos (1/2) * 3) 0 (sin (1/2) * 3)
   \<and> getTreePosition 2 2 = Vector3 (cos 1 * 0) 6 (sin 1 * 0)"
proof -
  have "getTreePosition 1 2 = Vector3 (cos (0.5 * real 1) * 3) 0 (sin (0.5 * real 1) * 3)
      \<and> getTreePosition (Suc 1) 2 =
           Vector3 (cos (0.5 * real 1 + 0.5) * 0) 6 (sin (0.5 * real 1 + 0.5) * 0)"
    using C3_tree_position [of 2 0 1 3 6 0] by simp
  then show ?thesis by (simp add: numeral_2_eq_2)
qed

lemma gallery_pos_eq:
  "pos (getGalleryPosition la i n) =
     Vector3 (cos (real (i mod 8) * (2 * pi / real (min n 8))) * 6)
             (real (i div 8) * 2.5 - 2)
             (sin (real (i mod 8) * (2 * pi / real (min n 8))) * 6)"
  by (simp add: getGalleryPosition_def Let_def ringIndex_def positionInRing_def mult.commute)

lemma gallery_rot_eq:
  "rot (getGalleryPosition la i n) = la (pos (getGalleryPosition la i n)) (Vector3 0 0 0)"
  by (simp add: getGalleryPosition_def Let_def)

text \<open>
  C6. For \<open>total \<ge> 1\<close>, \<open>getGalleryPosition\<close> puts index \<open>i\<close> on ring \<open>i div 8\<close> at slot
  \<open>i mod 8\<close>: at the angle \<open>slot * (2 pi / min(total, 8))\<close>, at distance 6 from the vertical
  axis, at height \<open>ring * 2.5 - 2\<close>, so that an index one ring higher lies exactly 2.5
  higher. Index 0 is ring 0 slot 0 and index 8 is ring 1 slot 0, and for \<open>total = 10\<close>
  index 8 lies 2.5 above index 0. The orientation returned is the one the library's
  \<open>lookAt\<close> gives an object at that position for the target \<open>(0, 0, 0)\<close>, the scene origin,
  and the position is never the origin itself: whatever relation \<open>faces\<close> between a rotation,
  a position and a target the library's \<open>lookAt\<close> establishes for distinct points, the
  returned orientation has it toward the origin.
\<close>

theorem C6_gallery_position:
  assumes "1 \<le> total'"
    and a: "angle = real (positionInRing i) * (2 * pi / real (min total' 8))"
  shows "ringIndex i = i div 8 \<and> positionInRing i = i mod 8
       \<and> pos (getGalleryPosition lookAt i total') =
           Vector3 (cos angle * 6) (real (ringIndex i) * 2.5 - 2) (sin angle * 6)
       \<and> sqrt ((vx (pos (getGalleryPosition lookAt i total')))\<^sup>2
               + (vz (pos (getGalleryPosition lookAt i total')))\<^sup>2) = 6
       \<and> (ringIndex j = ringIndex i + 1 \<longrightarrow>
            vy (pos (getGalleryPosition lookAt j total'))
              - vy (pos (getGalleryPosition lookAt i total')) = 2.5)
       \<and> ringIndex 0 = 0 \<and> positionInRing 0 = 0 \<and> ringIndex 8 = 1 \<and> positionInRing 8 = 0
       \<and> vy (pos (getGalleryPosition lookAt 8 10))
            - vy (pos (getGalleryPosition lookAt 0 10)) = 2.5
       \<and> rot (getGalleryPosition lookAt i total') =
            lookAt (pos (getGalleryPosition lookAt i total')) (Vector3 0 0 0)
       \<and> pos (getGalleryPosition lookAt i total') \<noteq> Vector3 0 0 0
       \<and> ((\<forall>p c. p \<noteq> c \<longrightarrow> faces (lookAt p c) p c) \<longrightarrow>
            faces (rot (getGalleryPosition lookAt i total'))
              (pos (getGalleryPosition lookAt i total')) (Vector3 0 0 0))"
proof -
  let ?p = "pos (getGalleryPosition lookAt i total')"
  have p0: "ringIndex i = i div 8 \<and> positionInRing i = i mod 8"
    by (simp add: ringIndex_def positionInRing_def)
  have p1: "?p = Vector3 (cos angle * 6) (real (ringIndex i) * 2.5 - 2) (sin angle * 6)"
    unfolding a by (simp add: gallery_pos_eq ringIndex_def positionInRing_def)
  have "(vx ?p)\<^sup>2 + (vz ?p)\<^sup>2 = 6\<^sup>2"
    by (simp only: p1 Vector3.sel circle_radius)
  then have p2: "sqrt ((vx ?p)\<^sup>2 + (vz ?p)\<^sup>2) = 6"
    by simp
  have p3: "ringIndex j = ringIndex i + 1 \<longrightarrow>
      vy (pos (getGalleryPosition lookAt j total')) - vy ?p = 2.5"
    by (simp add: gallery_pos_eq ringIndex_def algebra_simps)
  have p4: "ringIndex 0 = 0 \<and> positionInRing 0 = 0 \<and> ringIndex 8 = 1 \<and> positionInRing 8 = 0"
    by (simp add: ringIndex_def positionInRing_def)
  have p5: "vy (pos (getGalleryPosition lookAt 8 10))
      - vy (pos (getGalleryPosition lookAt 0 10)) = 2.5"
    by (simp add: gallery_pos_eq)
  have p6: "rot (getGalleryPosition lookAt i total') = lookAt ?p (Vector3 0 0 0)"
    by (rule gallery_rot_eq)
  have p7: "?p \<noteq> Vector3 0 0 0"
  proof
    assume "?p = Vector3 0 0 0"
    then have "sqrt ((vx ?p)\<^sup>2 + (vz ?p)\<^sup>2) = 0" by simp
    with p2 show False by simp
  qed
  have p8: "(\<forall>p c. p \<noteq> c \<longrightarrow> faces (lookAt p c) p c) \<longrightarrow>
      faces (rot (getGalleryPosition lookAt i total')) ?p (Vector3 0 0 0)"
    using p7 by (simp add: p6)
  from p0 p1 p2 p3 p4 p5 p6 p7 p8 show ?thesis by blast
qed

theorem C6_gallery_position_witness:
  "pos (getGalleryPosition (\<lambda>p c. c) 8 10) = Vector3 6 (1/2) 0
   \<and> pos (getGalleryPosition (\<lambda>p c. c) 0 10) = Vector3 6 (- 2) 0
   \<and> rot (getGalleryPosition (\<lambda>p c. c) 8 10) = Vector3 0 0 0"
proof -
  have r8: "ringIndex 8 = 1" and s8: "positionInRing 8 = 0"
    and r0: "ringIndex 0 = 0" and s0: "positionInRing 0 = 0"
    by (simp_all add: ringIndex_def positionInRing_def)
  from C6_gallery_position [where total' = 10 and angle = 0 and i = 8 and j = 0
      and lookAt = "\<lambda>p c. c" and faces = "\<lambda>r p c. r = c"]
  have "pos (getGalleryPosition (\<lambda>p c. c) 8 10) = Vector3 6 (1/2) 0
    \<and> rot (getGalleryPosition (\<lambda>p c. c) 8 10) = Vector3 0 0 0"
    by (simp add: r8 s8)
  moreover from C6_gallery_position [where total' = 10 and angle = 0 and i = 0 and j = 0
      and lookAt = "\<lambda>p c. c" and faces = "\<lambda>r p c. r = c"]
  have "pos (getGalleryPosition (\<lambda>p c. c) 0 10) = Vector3 6 (- 2) 0"
    by (simp add: r0 s0)
  ultimately show ?thesis by simp
qed

lemma getScatterPosition_eq:
  "getScatterPosition i g =
     (Vector3 ((8 + g 2 * 15) * sin (arccos (g 1 * 2 - 1)) * cos (g 0 * pi * 2))
              ((8 + g 2 * 15) * sin (arccos (g 1 * 2 - 1)) * sin (g 0 * pi * 2))
              ((8 + g 2 * 15) * cos (arccos (g 1 * 2 - 1))),
      \<lambda>n. g (Suc (Suc (Suc n))))"
  by (simp add: getScatterPosition_def random_def SCATTER_RADIUS_def numeral_2_eq_2 Let_def)

lemma giftDatum_scatterPos:
  "scatterPos (fst (giftDatum i g)) = fst (getScatterPosition (i + 1000) g)"
  by (simp add: giftDatum_def Let_def split_beta)

lemma ornamentDatum_scatterPos:
  "scatterPos (fst (ornamentDatum i g)) = fst (getScatterPosition i g)"
  by (simp add: ornamentDatum_def Let_def split_beta)

text \<open>
  C10. \<open>getScatterPosition\<close> returns the same point (and leaves the same random source)
  for any two indices given the same random source: the point is a function of the next
  three draws only. The scatter position of gift box \<open>i\<close>, generated with the index
  \<open>i + 1000\<close>, is the one the index \<open>i\<close> gives, as for ornament \<open>i\<close>.
\<close>

theorem C10_scatter_ignores_index:
  "getScatterPosition i g = getScatterPosition j g
   \<and> fst (getScatterPosition i g) =
       Vector3 ((8 + g 2 * 15) * sin (arccos (g 1 * 2 - 1)) * cos (g 0 * pi * 2))
               ((8 + g 2 * 15) * sin (arccos (g 1 * 2 - 1)) * sin (g 0 * pi * 2))
               ((8 + g 2 * 15) * cos (arccos (g 1 * 2 - 1)))
   \<and> scatterPos (fst (giftDatum i g)) = fst (getScatterPosition i g)
   \<and> scatterPos (fst (giftDatum i g)) = scatterPos (fst (ornamentDatum i g))"
proof -
  have a: "getScatterPosition i g = getScatterPosition j g"
    by (simp only: getScatterPosition_eq)
  have b: "getScatterPosition (i + 1000) g = getScatterPosition i g"
    by (simp only: getScatterPosition_eq)
  show ?thesis
    using a by (simp add: giftDatum_scatterPos ornamentDatum_scatterPos b) (simp add: getScatterPosition_eq)
qed

section \<open>Properties of the per-frame updates\<close>

lemma fold_update_length:
  "length (fold (\<lambda>i ms. ms[i := f i]) is ms) = length ms"
  by (induction "is" arbitrary: ms) simp_all

lemma fold_update_upt_nth:
  "i < n \<Longrightarrow> n \<le> length ms \<Longrightarrow> fold (\<lambda>i ms. ms[i := f i]) [0..<n] ms ! i = f i"
proof (induction n)
  case 0
  then show ?case by simp
next
  case (Suc n)
  show ?case
  proof (cases "i = n")
    case True
    with Suc.prems show ?thesis by (simp add: fold_update_length)
  next
    case False
    with Suc.prems have "i < n" and "n \<le> length ms" by simp_all
    with Suc.IH False show ?thesis by simp
  qed
qed

lemma Ornaments_frame_instance:
  assumes "length (instanceMatrix m) = ORNAMENT_COUNT" and "i < ORNAMENT_COUNT"
  shows "\<exists>m'. Ornaments_useFrame (Some m) data progress time = Some m'
           \<and> instanceMatrix m' ! i = ornamentInstance (data ! i) progress time"
  using assms by (simp add: Ornaments_useFrame_def fold_update_upt_nth)

lemma GiftBoxes_frame_instance:
  assumes "length (instanceMatrix m) = GIFT_COUNT" and "i < GIFT_COUNT"
  shows "\<exists>m'. GiftBoxes_useFrame (Some m) data progress time = Some m'
           \<and> instanceMatrix m' ! i = giftInstance (data ! i) progress time"
  using assms by (simp add: GiftBoxes_useFrame_def fold_update_upt_nth)

lemma lerpVectors_0: "lerpVectors v w 0 = v"
  by (simp add: lerpVectors_def)

lemma lerpVectors_1: "lerpVectors v w 1 = w"
  by (simp add: lerpVectors_def)

lemma mapIndexed_length: "length (mapIndexed f i n g) = n"
  by (induction n arbitrary: i g) (simp_all add: split_beta Let_def)

lemma data_lengths:
  "length (ornamentsData g) = ORNAMENT_COUNT \<and> length (giftBoxesData g) = GIFT_COUNT"
  by (simp add: ornamentsData_def giftBoxesData_def mapIndexed_length)

text \<open>
  C9. In one frame of the foliage, the ornaments and the gift boxes (with the mesh
  mounted), the rotation about the vertical axis grows by 0.002 when \<open>progress < 0.5\<close>,
  and is what it was when \<open>progress \<ge> 0.5\<close>.
\<close>

theorem C9_idle_spin:
  "(progress < 0.5 \<longrightarrow>
      map_option pointsRotationY (Foliage_useFrame (Some f) progress time)
        = Some (pointsRotationY f + 0.002)
    \<and> map_option meshRotationY (Ornaments_useFrame (Some m) od progress time)
        = Some (meshRotationY m + 0.002)
    \<and> map_option meshRotationY (GiftBoxes_useFrame (Some m) gd progress time)
        = Some (meshRotationY m + 0.002))
   \<and> (\<not> progress < 0.5 \<longrightarrow>
      map_option pointsRotationY (Foliage_useFrame (Some f) progress time)
        = Some (pointsRotationY f)
    \<and> map_option meshRotationY (Ornaments_useFrame (Some m) od progress time)
        = Some (meshRotationY m)
    \<and> map_option meshRotationY (GiftBoxes_useFrame (Some m) gd progress time)
        = Some (meshRotationY m))"
  by (simp add: Foliage_useFrame_def Ornaments_useFrame_def GiftBoxes_useFrame_def)

theorem C9_idle_spin_witness:
  "map_option pointsRotationY
     (Foliage_useFrame (Some \<lparr>uTime = 0, uProgress = 0, pointsRotationY = 1\<rparr>) (1/4) 0)
     = Some (501/500)
   \<and> map_option pointsRotationY
     (Foliage_useFrame (Some \<lparr>uTime = 0, uProgress = 0, pointsRotationY = 1\<rparr>) (1/2) 0)
     = Some 1
   \<and> map_option meshRotationY
     (Ornaments_useFrame (Some \<lparr>instanceMatrix = [], needsUpdate = False, meshRotationY = 1\<rparr>)
        [] (1/4) 0) = Some (501/500)
   \<and> map_option meshRotationY
     (GiftBoxes_useFrame (Some \<lparr>instanceMatrix = [], needsUpdate = False, meshRotationY = 1\<rparr>)
        [] (1/2) 0) = Some 1"
  using C9_idle_spin [of "1/4" "\<lparr>uTime = 0, uProgress = 0, pointsRotationY = 1\<rparr>" 0
      "\<lparr>instanceMatrix = [], needsUpdate = False, meshRotationY = 1\<rparr>" "[]" "[]"]
    C9_idle_spin [of "1/2" "\<lparr>uTime = 0, uProgress = 0, pointsRotationY = 1\<rparr>" 0
      "\<lparr>instanceMatrix = [], needsUpdate = False, meshRotationY = 1\<rparr>" "[]" "[]"]
  by simp

lemma ornamentInstance_0:
  "position (ornamentInstance d 0 time) =
     Vector3 (vx (treePos d)) (vy (treePos d) + sin (time + phase d) * 0.05) (vz (treePos d))"
  by (simp add: ornamentInstance_def lerpVectors_0 Let_def)

lemma ornamentInstance_1:
  "position (ornamentInstance d 1 time) =
     Vector3 (vx (scatterPos d)) (vy (scatterPos d) + sin (time + phase d) * 0.05)
       (vz (scatterPos d))"
  by (simp add: ornamentInstance_def lerpVectors_1 Let_def)

lemma giftInstance_0:
  "position (giftInstance d 0 time) =
     Vector3 (vx (treePos d)) (vy (treePos d) + sin (time * 0.5 + phase d) * 0.02)
       (vz (treePos d))"
  by (simp add: giftInstance_def lerpVectors_0 Let_def)

lemma giftInstance_1:
  "position (giftInstance d 1 time) =
     Vector3 (vx (scatterPos d)) (vy (scatterPos d) + sin (time * 0.5 + phase d) * 0.02)
       (vz (scatterPos d))"
  by (simp add: giftInstance_def lerpVectors_1 Let_def)

lemma photoTargetPos_0:
  "photoTargetPos k n 0 time =
     Vector3 (vx (photoTreePos k n)) (vy (photoTreePos k n) + sin (time + real k) * 0.05)
       (vz (photoTreePos k n))"
  by (simp add: photoTargetPos_def lerpVectors_0 Let_def)

lemma gallery_pos_lookAt:
  "pos (getGalleryPosition la k n) = pos (getGalleryPosition la' k n)"
  by (simp add: getGalleryPosition_def Let_def)

lemma photoTargetPos_1:
  "photoTargetPos k n 1 time =
     Vector3 (vx (pos (getGalleryPosition la k n)))
       (vy (pos (getGalleryPosition la k n)) + sin (time + real k) * 0.05)
       (vz (pos (getGalleryPosition la k n)))"
  by (simp add: photoTargetPos_def lerpVectors_1 Let_def gallery_pos_lookAt [of la k n "\<lambda>p c. ()"])

lemma PhotoItem_frame_position:
  "map_option groupPosition (PhotoItem_useFrame (Some grp) k n progress time) =
     Some (vlerp (groupPosition grp) (photoTargetPos k n progress time) 0.1)"
  by (simp add: PhotoItem_useFrame_def)

lemma vertexShader_pos_1: "vertexShader_pos s e 1 t = e"
  by (simp add: vertexShader_pos_def mix_def)

lemma vertexShader_pos_0:
  "vertexShader_pos s e 0 t =
     Vector3 (vx s + sin (t * 1.5 + vy s) * 0.05) (vy s) (vz s + cos (t * 1.5 + vy s) * 0.05)"
  by (simp add: vertexShader_pos_def mix_def)

lemma mapIndexed_nth_0: "0 < n \<Longrightarrow> mapIndexed f i n g ! 0 = fst (f i g)"
  by (cases n) (simp_all add: split_beta Let_def)

lemma getScatterPosition_rest:
  "snd (getScatterPosition i g) = (\<lambda>n. g (Suc (Suc (Suc n))))"
  by (simp add: getScatterPosition_eq)

lemma ornamentDatum_quarter:
  "fst (ornamentDatum 0 (\<lambda>n. 1 / 4)) =
     \<lparr>treePos = Vector3 (63 / 10) (- (63 / 10)) 0,
      scatterPos = fst (getScatterPosition 0 (\<lambda>n. 1 / 4)),
      scale = 11 / 40, phase = pi / 2, color = ''#B8860B''\<rparr>"
  by (simp add: ornamentDatum_def getTreePosition_eq multiplyScalar_def random_def
      split_beta Let_def getScatterPosition_rest)

text \<open>
  C2, as stated, fails: the frame adds a vertical float to the interpolated position. With
  every random draw equal to 0.25, the first ornament has the tree position
  \<open>(6.3, -6.3, 0)\<close> and the phase \<open>pi / 2\<close>, and the frame at \<open>progress = 0\<close> and time 0
  writes it at \<open>(6.3, -6.25, 0)\<close>.
\<close>

theorem C2_counterexample:
  "treePos (ornamentsData (\<lambda>n. 1 / 4) ! 0) = Vector3 (63 / 10) (- (63 / 10)) 0
   \<and> position (instanceMatrix (the (Ornaments_useFrame
        (Some \<lparr>instanceMatrix =
                 replicate ORNAMENT_COUNT
                   \<lparr>position = Vector3 0 0 0, rotation = Vector3 0 0 0,
                     objScale = Vector3 1 1 1\<rparr>,
               needsUpdate = False, meshRotationY = 0\<rparr>)
        (ornamentsData (\<lambda>n. 1 / 4)) 0 0)) ! 0)
     = Vector3 (63 / 10) (- (25 / 4)) 0
   \<and> position (instanceMatrix (the (Ornaments_useFrame
        (Some \<lparr>instanceMatrix =
                 replicate ORNAMENT_COUNT
                   \<lparr>position = Vector3 0 0 0, rotation = Vector3 0 0 0,
                     objScale = Vector3 1 1 1\<rparr>,
               needsUpdate = False, meshRotationY = 0\<rparr>)
        (ornamentsData (\<lambda>n. 1 / 4)) 0 0)) ! 0)
     \<noteq> treePos (ornamentsData (\<lambda>n. 1 / 4) ! 0)"
proof -
  let ?m = "\<lparr>instanceMatrix =
                 replicate ORNAMENT_COUNT
                   \<lparr>position = Vector3 0 0 0, rotation = Vector3 0 0 0,
                     objScale = Vector3 1 1 1\<rparr>,
               needsUpdate = False, meshRotationY = 0\<rparr>"
  let ?data = "ornamentsData (\<lambda>n. 1 / 4)"
  have c: "0 < ORNAMENT_COUNT" by (simp add: ORNAMENT_COUNT_def)
  then have d: "?data ! 0 = fst (ornamentDatum 0 (\<lambda>n. 1 / 4))"
    by (simp add: ornamentsData_def mapIndexed_nth_0)
  have a: "treePos (?data ! 0) = Vector3 (63 / 10) (- (63 / 10)) 0"
    by (simp add: d ornamentDatum_quarter)
  have "length (instanceMatrix ?m) = ORNAMENT_COUNT" by simp
  from Ornaments_frame_instance [OF this c, of ?data 0 0]
  obtain m' where "Ornaments_useFrame (Some ?m) ?data 0 0 = Some m'"
    and "instanceMatrix m' ! 0 = ornamentInstance (?data ! 0) 0 0"
    by blast
  then have b: "position (instanceMatrix (the (Ornaments_useFrame (Some ?m) ?data 0 0)) ! 0)
      = Vector3 (63 / 10) (- (25 / 4)) 0"
    by (simp add: ornamentInstance_0 d ornamentDatum_quarter)
  have "Vector3 (63 / 10) (- (25 / 4)) 0 \<noteq> Vector3 (63 / 10) (- (63 / 10)) (0::real)"
    by simp
  with a b show ?thesis by (simp only: simp_thms)
qed

text \<open>
  C2 (as the code has it). The interpolation of the two cached positions is the gathered
  position at \<open>progress = 0\<close> and the scattered one at \<open>progress = 1\<close>. The position a
  frame writes for an ornament or a gift box is that position with \<open>sin(time + phase) * 0.05\<close>
  (gifts: \<open>sin(time * 0.5 + phase) * 0.02\<close>) added to \<open>y\<close>; \<open>x\<close> and \<open>z\<close> are the cached ones.
  For a photo the frame's target is the tree position (at 0) or the gallery position (at 1)
  with \<open>sin(time + index) * 0.05\<close> added to \<open>y\<close>, and the group moves one tenth of the way
  from where it is to that target. The shader's position of a foliage point is its scatter
  position at \<open>uProgress = 1\<close>, and at \<open>uProgress = 0\<close> its tree position displaced in \<open>x\<close>
  and \<open>z\<close> by the breathing terms.
\<close>

theorem C2_frame_positions:
  assumes "length od = ORNAMENT_COUNT" and "length (instanceMatrix om) = ORNAMENT_COUNT"
    and "i < ORNAMENT_COUNT"
    and "length gd = GIFT_COUNT" and "length (instanceMatrix gm) = GIFT_COUNT"
    and "j < GIFT_COUNT"
  shows "lerpVectors v w 0 = v \<and> lerpVectors v w 1 = w
    \<and> (\<exists>m'. Ornaments_useFrame (Some om) od 0 time = Some m'
          \<and> position (instanceMatrix m' ! i) =
              Vector3 (vx (treePos (od ! i)))
                (vy (treePos (od ! i)) + sin (time + phase (od ! i)) * 0.05)
                (vz (treePos (od ! i))))
    \<and> (\<exists>m'. Ornaments_useFrame (Some om) od 1 time = Some m'
          \<and> position (instanceMatrix m' ! i) =
              Vector3 (vx (scatterPos (od ! i)))
                (vy (scatterPos (od ! i)) + sin (time + phase (od ! i)) * 0.05)
                (vz (scatterPos (od ! i))))
    \<and> (\<exists>m'. GiftBoxes_useFrame (Some gm) gd 0 time = Some m'
          \<and> position (instanceMatrix m' ! j) =
              Vector3 (vx (treePos (gd ! j)))
                (vy (treePos (gd ! j)) + sin (time * 0.5 + phase (gd ! j)) * 0.02)
                (vz (treePos (gd ! j))))
    \<and> (\<exists>m'. GiftBoxes_useFrame (Some gm) gd 1 time = Some m'
          \<and> position (instanceMatrix m' ! j) =
              Vector3 (vx (scatterPos (gd ! j)))
                (vy (scatterPos (gd ! j)) + sin (time * 0.5 + phase (gd ! j)) * 0.02)
                (vz (scatterPos (gd ! j))))
    \<and> photoTargetPos k n 0 time =
         Vector3 (vx (photoTreePos k n)) (vy (photoTreePos k n) + sin (time + real k) * 0.05)
           (vz (photoTreePos k n))
    \<and> photoTargetPos k n 1 time =
         Vector3 (vx (pos (getGalleryPosition lookAt k n)))
           (vy (pos (getGalleryPosition lookAt k n)) + sin (time + real k) * 0.05)
           (vz (pos (getGalleryPosition lookAt k n)))
    \<and> map_option groupPosition (PhotoItem_useFrame (Some grp) k n progress time) =
         Some (vlerp (groupPosition grp) (photoTargetPos k n progress time) 0.1)
    \<and> vertexShader_pos v w 1 time = w
    \<and> vertexShader_pos v w 0 time =
         Vector3 (vx v + sin (time * 1.5 + vy v) * 0.05) (vy v)
           (vz v + cos (time * 1.5 + vy v) * 0.05)"
proof -
  from Ornaments_frame_instance [OF assms(2,3), of od 0 time]
  have o0: "\<exists>m'. Ornaments_useFrame (Some om) od 0 time = Some m'
          \<and> position (instanceMatrix m' ! i) =
              Vector3 (vx (treePos (od ! i)))
                (vy (treePos (od ! i)) + sin (time + phase (od ! i)) * 0.05)
                (vz (treePos (od ! i)))"
    by (auto simp add: ornamentInstance_0)
  from Ornaments_frame_instance [OF assms(2,3), of od 1 time]
  have o1: "\<exists>m'. Ornaments_useFrame (Some om) od 1 time = Some m'
          \<and> position (instanceMatrix m' ! i) =
              Vector3 (vx (scatterPos (od ! i)))
                (vy (scatterPos (od ! i)) + sin (time + phase (od ! i)) * 0.05)
                (vz (scatterPos (od ! i)))"
    by (auto simp add: ornamentInstance_1)
  from GiftBoxes_frame_instance [OF assms(5,6), of gd 0 time]
  have g0: "\<exists>m'. GiftBoxes_useFrame (Some gm) gd 0 time = Some m'
          \<and> position (instanceMatrix m' ! j) =
              Vector3 (vx (treePos (gd ! j)))
                (vy (treePos (gd ! j)) + sin (time * 0.5 + phase (gd ! j)) * 0.02)
                (vz (treePos (gd ! j)))"
    by (auto simp add: giftInstance_0)
  from GiftBoxes_frame_instance [OF assms(5,6), of gd 1 time]
  have g1: "\<exists>m'. GiftBoxes_useFrame (Some gm) gd 1 time = Some m'
          \<and> position (instanceMatrix m' ! j) =
              Vector3 (vx (scatterPos (gd ! j)))
                (vy (scatterPos (gd ! j)) + sin (time * 0.5 + phase (gd ! j)) * 0.02)
                (vz (scatterPos (gd ! j)))"
    by (auto simp add: giftInstance_1)
  note rest = lerpVectors_0 [of v w] lerpVectors_1 [of v w] photoTargetPos_0 [of k n time]
    photoTargetPos_1 [of k n time lookAt] PhotoItem_frame_position [of grp k n progress time]
    vertexShader_pos_1 [of v w time] vertexShader_pos_0 [of v w time]
  from o0 o1 g0 g1 rest show ?thesis by blast
qed

theorem C2_frame_positions_witness:
  "(\<exists>m'. Ornaments_useFrame
        (Some \<lparr>instanceMatrix =
                 replicate ORNAMENT_COUNT
                   \<lparr>position = Vector3 0 0 0, rotation = Vector3 0 0 0,
                     objScale = Vector3 1 1 1\<rparr>,
               needsUpdate = False, meshRotationY = 0\<rparr>)
        (replicate ORNAMENT_COUNT
           \<lparr>treePos = Vector3 0 0 0, scatterPos = Vector3 1 1 1, scale = 1, phase = 0,
             color = ''#D4AF37''\<rparr>)
        0 (pi / 2) = Some m'
      \<and> position (instanceMatrix m' ! 0) = Vector3 0 (1 / 20) 0)
   \<and> (\<exists>m'. GiftBoxes_useFrame
        (Some \<lparr>instanceMatrix =
                 replicate GIFT_COUNT
                   \<lparr>position = Vector3 0 0 0, rotation = Vector3 0 0 0,
                     objScale = Vector3 1 1 1\<rparr>,
               needsUpdate = False, meshRotationY = 0\<rparr>)
        (replicate GIFT_COUNT
           \<lparr>treePos = Vector3 0 0 0, scatterPos = Vector3 1 1 1, scale = 1, phase = 0,
             color = ''#8B0000''\<rparr>)
        1 pi = Some m'
      \<and> position (instanceMatrix m' ! 0) = Vector3 1 (51 / 50) 1)"
proof -
  let ?o = "\<lparr>position = Vector3 0 0 0, rotation = Vector3 0 0 0, objScale = Vector3 1 1 1\<rparr>"
  let ?om = "\<lparr>instanceMatrix = replicate ORNAMENT_COUNT ?o,
               needsUpdate = False, meshRotationY = 0\<rparr>"
  let ?gm = "\<lparr>instanceMatrix = replicate GIFT_COUNT ?o,
               needsUpdate = False, meshRotationY = 0\<rparr>"
  let ?od = "replicate ORNAMENT_COUNT
           \<lparr>treePos = Vector3 0 0 0, scatterPos = Vector3 1 1 1, scale = 1, phase = 0,
             color = ''#D4AF37''\<rparr>"
  let ?gd = "replicate GIFT_COUNT
           \<lparr>treePos = Vector3 0 0 0, scatterPos = Vector3 1 1 1, scale = 1, phase = 0,
             color = ''#8B0000''\<rparr>"
  have h: "length ?od = ORNAMENT_COUNT" "length (instanceMatrix ?om) = ORNAMENT_COUNT"
    "0 < ORNAMENT_COUNT" "length ?gd = GIFT_COUNT" "length (instanceMatrix ?gm) = GIFT_COUNT"
    "0 < GIFT_COUNT"
    by (simp_all add: ORNAMENT_COUNT_def GIFT_COUNT_def)
  from C2_frame_positions [OF h, where time = "pi / 2"
      and v = "Vector3 0 0 0" and w = "Vector3 0 0 0" and k = 0 and n = 1
      and lookAt = "\<lambda>p c. c" and progress = 0
      and grp = "\<lparr>groupPosition = Vector3 0 0 0, groupScale = 1\<rparr>"]
  have a: "\<exists>m'. Ornaments_useFrame (Some ?om) ?od 0 (pi / 2) = Some m'
      \<and> position (instanceMatrix m' ! 0) = Vector3 0 (1 / 20) 0"
    using h(3) h(6) by simp
  from C2_frame_positions [OF h, where time = pi
      and v = "Vector3 0 0 0" and w = "Vector3 0 0 0" and k = 0 and n = 1
      and lookAt = "\<lambda>p c. c" and progress = 0
      and grp = "\<lparr>groupPosition = Vector3 0 0 0, groupScale = 1\<rparr>"]
  have b: "\<exists>m'. GiftBoxes_useFrame (Some ?gm) ?gd 1 pi = Some m'
      \<and> position (instanceMatrix m' ! 0) = Vector3 1 (51 / 50) 1"
    using h(3) h(6) by simp
  from a b show ?thesis by (rule conjI)
qed

section \<open>Properties of the photo upload\<close>

lemma placeholdersBetween_empty: "j \<le> i \<Longrightarrow> placeholdersBetween xs i j = 0"
  by (simp add: placeholdersBetween_def)

lemma placeholdersBetween_step:
  "i < j \<Longrightarrow> placeholdersBetween xs i j =
     (if truthy (isPlaceholder (xs ! i)) then 1 else 0) + placeholdersBetween xs (Suc i) j"
  by (simp add: placeholdersBetween_def upt_conv_Cons)

lemma placeholdersBetween_update:
  "i < i' \<Longrightarrow> placeholdersBetween (xs[i := x]) i' j = placeholdersBetween xs i' j"
proof -
  assume "i < i'"
  then have "filter (\<lambda>l. truthy (isPlaceholder (xs[i := x] ! l))) [i'..<j]
      = filter (\<lambda>l. truthy (isPlaceholder (xs ! l))) [i'..<j]"
    by (intro filter_cong) auto
  then show ?thesis by (simp add: placeholdersBetween_def)
qed

lemma fillPlaceholders_length:
  "length (fst (fillPlaceholders ids u files i k xs)) = length xs"
proof (induction ids u files i k xs rule: fillPlaceholders.induct)
  case (1 ids u files i k xs)
  show ?case
    using "1.IH" by (subst fillPlaceholders.simps) (simp split: if_splits)
qed

lemma fillPlaceholders_counter:
  "k \<le> length files \<Longrightarrow>
     snd (fillPlaceholders ids u files i k xs) =
       min (length files) (k + placeholdersBetween xs i (length xs))"
proof (induction ids u files i k xs rule: fillPlaceholders.induct)
  case (1 ids u files i k xs)
  show ?case
  proof (cases "i < length xs \<and> k < length files")
    case False
    with "1.prems" show ?thesis
      by (subst fillPlaceholders.simps) (auto simp add: placeholdersBetween_empty)
  next
    case True
    show ?thesis
    proof (cases "truthy (isPlaceholder (xs ! i))")
      case ph: True
      with True "1.IH"(1) have
        "snd (fillPlaceholders ids u files (i + 1) (k + 1) (xs[i := newPhoto ids u files k])) =
           min (length files) (k + 1 + placeholdersBetween (xs[i := newPhoto ids u files k]) (i + 1) (length xs))"
        by simp
      with True ph show ?thesis
        by (subst fillPlaceholders.simps)
           (simp add: placeholdersBetween_update placeholdersBetween_step [of i "length xs"])
    next
      case nph: False
      with True "1.IH"(2) "1.prems" have
        "snd (fillPlaceholders ids u files (i + 1) k xs) =
           min (length files) (k + placeholdersBetween xs (i + 1) (length xs))"
        by simp
      with True nph show ?thesis
        by (subst fillPlaceholders.simps)
           (simp add: placeholdersBetween_step [of i "length xs"])
    qed
  qed
qed

lemma fillPlaceholders_nth:
  "j < length xs \<Longrightarrow>
     fst (fillPlaceholders ids u files i k xs) ! j =
       (if i \<le> j \<and> truthy (isPlaceholder (xs ! j)) \<and> k + placeholdersBetween xs i j < length files
        then newPhoto ids u files (k + placeholdersBetween xs i j)
        else xs ! j)"
proof (induction ids u files i k xs rule: fillPlaceholders.induct)
  case (1 ids u files i k xs)
  show ?case
  proof (cases "i < length xs \<and> k < length files")
    case False
    then consider "length xs \<le> i" | "length files \<le> k" by linarith
    then show ?thesis
    proof cases
      case 1
      with "1.prems" show ?thesis by (subst fillPlaceholders.simps) simp
    next
      case 2
      then show ?thesis by (subst fillPlaceholders.simps) simp
    qed
  next
    case True
    show ?thesis
    proof (cases "truthy (isPlaceholder (xs ! i))")
      case ph: True
      let ?xs = "xs[i := newPhoto ids u files k]"
      from True ph "1.IH"(1) "1.prems" have ih:
        "fst (fillPlaceholders ids u files (i + 1) (k + 1) ?xs) ! j =
           (if i + 1 \<le> j \<and> truthy (isPlaceholder (?xs ! j))
               \<and> k + 1 + placeholdersBetween ?xs (i + 1) j < length files
            then newPhoto ids u files (k + 1 + placeholdersBetween ?xs (i + 1) j)
            else ?xs ! j)"
        by simp
      have step: "fillPlaceholders ids u files i k xs
          = fillPlaceholders ids u files (i + 1) (k + 1) ?xs"
        using True ph by (subst fillPlaceholders.simps) simp
      show ?thesis
      proof (cases "i < j")
        case lt: True
        then have "placeholdersBetween xs i j = 1 + placeholdersBetween xs (Suc i) j"
          using ph by (simp add: placeholdersBetween_step)
        with lt ih show ?thesis
          unfolding step by (simp add: placeholdersBetween_update)
      next
        case ge: False
        show ?thesis
        proof (cases "j = i")
          case True
          with ih \<open>i < length xs \<and> k < length files\<close> ph show ?thesis
            unfolding step by (simp add: placeholdersBetween_empty)
        next
          case False
          with ge have "j < i" by simp
          with ih show ?thesis unfolding step by simp
        qed
      qed
    next
      case nph: False
      from True nph "1.IH"(2) "1.prems" have ih:
        "fst (fillPlaceholders ids u files (i + 1) k xs) ! j =
           (if i + 1 \<le> j \<and> truthy (isPlaceholder (xs ! j))
               \<and> k + placeholdersBetween xs (i + 1) j < length files
            then newPhoto ids u files (k + placeholdersBetween xs (i + 1) j)
            else xs ! j)"
        by simp
      have step: "fillPlaceholders ids u files i k xs
          = fillPlaceholders ids u files (i + 1) k xs"
        using True nph by (subst fillPlaceholders.simps) simp
      show ?thesis
      proof (cases "i < j")
        case lt: True
        then have "placeholdersBetween xs i j = placeholdersBetween xs (Suc i) j"
          using nph by (simp add: placeholdersBetween_step)
        with lt ih show ?thesis unfolding step by simp
      next
        case ge: False
        with ih nph show ?thesis unfolding step by (cases "j = i") auto
      qed
    qed
  qed
qed

lemma appendRemaining_eq:
  "appendRemaining ids u files k xs = xs @ map (newPhoto ids u files) [k..<length files]"
proof (induction ids u files k xs rule: appendRemaining.induct)
  case (1 ids u files k xs)
  show ?case
  proof (cases "k < length files")
    case True
    with "1.IH" show ?thesis
      by (subst appendRemaining.simps) (simp add: upt_conv_Cons)
  next
    case False
    then show ?thesis by (subst appendRemaining.simps) simp
  qed
qed

lemma handlePhotoUpload_eq:
  "handlePhotoUpload ids u (Some files) prev =
     fst (fillPlaceholders ids u files 0 0 prev)
       @ map (newPhoto ids u files) [placeholdersBetween prev 0 (length prev)..<length files]"
proof (cases "files = []")
  case True
  then show ?thesis
    by (simp add: handlePhotoUpload_def fillPlaceholders.simps [of _ _ "[]"])
next
  case False
  have "snd (fillPlaceholders ids u files 0 0 prev)
      = min (length files) (placeholdersBetween prev 0 (length prev))"
    by (simp add: fillPlaceholders_counter)
  moreover have "[min (length files) c..<length files] = [c..<length files]" for c
    by (cases "c \<le> length files") (simp_all add: min_def)
  ultimately show ?thesis
    using False by (simp add: handlePhotoUpload_def split_beta appendRemaining_eq)
qed

lemma placeholdersBetween_all:
  assumes "\<And>l. l < j \<Longrightarrow> truthy (isPlaceholder (xs ! l))"
  shows "placeholdersBetween xs 0 j = j"
proof -
  have "filter (\<lambda>l. truthy (isPlaceholder (xs ! l))) [0..<j] = [0..<j]"
    using assms by (simp add: filter_id_conv)
  then show ?thesis by (simp add: placeholdersBetween_def)
qed

lemma DEFAULT_PHOTOS_length: "length DEFAULT_PHOTOS = 8"
  by (simp add: DEFAULT_PHOTOS_def MAX_PLACEHOLDERS_def)

lemma DEFAULT_PHOTOS_placeholder: "l < 8 \<Longrightarrow> truthy (isPlaceholder (DEFAULT_PHOTOS ! l))"
  by (simp add: DEFAULT_PHOTOS_def MAX_PLACEHOLDERS_def truthy_def)

lemma DEFAULT_PHOTOS_between: "j \<le> 8 \<Longrightarrow> placeholdersBetween DEFAULT_PHOTOS 0 j = j"
  by (rule placeholdersBetween_all) (simp add: DEFAULT_PHOTOS_placeholder)

lemma handlePhotoUpload_length:
  "length (handlePhotoUpload ids u (Some files) prev) =
     length prev + (length files - placeholdersBetween prev 0 (length prev))"
  by (simp add: handlePhotoUpload_eq fillPlaceholders_length)

lemma handlePhotoUpload_nth:
  assumes "j < length prev"
  shows "handlePhotoUpload ids u (Some files) prev ! j =
     (if truthy (isPlaceholder (prev ! j)) \<and> placeholdersBetween prev 0 j < length files
      then newPhoto ids u files (placeholdersBetween prev 0 j)
      else prev ! j)"
  using assms
  by (simp add: handlePhotoUpload_eq nth_append fillPlaceholders_length fillPlaceholders_nth)

lemma handlePhotoUpload_drop:
  "drop (length prev) (handlePhotoUpload ids u (Some files) prev) =
     map (newPhoto ids u files) [placeholdersBetween prev 0 (length prev)..<length files]"
  by (simp add: handlePhotoUpload_eq fillPlaceholders_length)

lemma upload_default_3:
  assumes "length files = 3"
  shows "handlePhotoUpload ids u (Some files) DEFAULT_PHOTOS =
     map (newPhoto ids u files) [0..<3] @ drop 3 DEFAULT_PHOTOS"
proof (rule nth_equalityI)
  show "length (handlePhotoUpload ids u (Some files) DEFAULT_PHOTOS) =
      length (map (newPhoto ids u files) [0..<3] @ drop 3 DEFAULT_PHOTOS)"
    using assms
    by (simp add: handlePhotoUpload_length DEFAULT_PHOTOS_length DEFAULT_PHOTOS_between)
next
  fix j
  assume "j < length (handlePhotoUpload ids u (Some files) DEFAULT_PHOTOS)"
  with assms have j: "j < 8"
    by (simp add: handlePhotoUpload_length DEFAULT_PHOTOS_length DEFAULT_PHOTOS_between)
  then have "handlePhotoUpload ids u (Some files) DEFAULT_PHOTOS ! j =
      (if j < 3 then newPhoto ids u files j else DEFAULT_PHOTOS ! j)"
    using assms
    by (simp add: handlePhotoUpload_nth DEFAULT_PHOTOS_length DEFAULT_PHOTOS_between
        DEFAULT_PHOTOS_placeholder)
  also have "\<dots> = (map (newPhoto ids u files) [0..<3] @ drop 3 DEFAULT_PHOTOS) ! j"
    using j by (simp add: nth_append DEFAULT_PHOTOS_length)
  finally show "handlePhotoUpload ids u (Some files) DEFAULT_PHOTOS ! j =
      (map (newPhoto ids u files) [0..<3] @ drop 3 DEFAULT_PHOTOS) ! j" .
qed

lemma upload_default_10:
  assumes "length files = 10"
  shows "handlePhotoUpload ids u (Some files) DEFAULT_PHOTOS =
     map (newPhoto ids u files) [0..<10]"
proof (rule nth_equalityI)
  show "length (handlePhotoUpload ids u (Some files) DEFAULT_PHOTOS) =
      length (map (newPhoto ids u files) [0..<10])"
    using assms
    by (simp add: handlePhotoUpload_length DEFAULT_PHOTOS_length DEFAULT_PHOTOS_between)
next
  fix j
  assume "j < length (handlePhotoUpload ids u (Some files) DEFAULT_PHOTOS)"
  with assms have j: "j < 10"
    by (simp add: handlePhotoUpload_length DEFAULT_PHOTOS_length DEFAULT_PHOTOS_between)
  show "handlePhotoUpload ids u (Some files) DEFAULT_PHOTOS ! j =
      map (newPhoto ids u files) [0..<10] ! j"
  proof (cases "j < 8")
    case True
    with assms show ?thesis
      by (simp add: handlePhotoUpload_nth DEFAULT_PHOTOS_length DEFAULT_PHOTOS_between
          DEFAULT_PHOTOS_placeholder)
  next
    case False
    with j have "8 \<le> j" by simp
    have "handlePhotoUpload ids u (Some files) DEFAULT_PHOTOS ! j =
        drop (length DEFAULT_PHOTOS) (handlePhotoUpload ids u (Some files) DEFAULT_PHOTOS) ! (j - 8)"
      using \<open>8 \<le> j\<close> assms
      by (simp add: handlePhotoUpload_length DEFAULT_PHOTOS_length DEFAULT_PHOTOS_between)
    also have "\<dots> = map (newPhoto ids u files) [8..<10] ! (j - 8)"
      using assms handlePhotoUpload_drop [of DEFAULT_PHOTOS ids u files]
      by (simp add: DEFAULT_PHOTOS_length DEFAULT_PHOTOS_between)
    also have "\<dots> = map (newPhoto ids u files) [0..<10] ! j"
    proof -
      from j \<open>8 \<le> j\<close> have "j = 8 \<or> j = 9" by arith
      then show ?thesis by auto
    qed
    finally show ?thesis .
  qed
qed

text \<open>
  C5. With the 8 default placeholders as the photos, an upload of 3 files replaces the
  entries at the indices 0, 1, 2 by the photos of the files 0, 1, 2 and leaves the other
  five placeholders and the length 8; an upload of 10 files gives the photos of the files
  0 to 9 in order, of length 10: all 8 placeholders replaced and 2 photos appended. In
  general the placeholder at index \<open>j\<close> that has \<open>r\<close> placeholders before it is replaced by
  the photo of file \<open>r\<close> if there is such a file, every other entry stays, and the files
  left over when the placeholders are used up are appended in order.
\<close>

theorem C5_photo_upload:
  "(length files = 3 \<longrightarrow>
      handlePhotoUpload ids createObjectURL (Some files) DEFAULT_PHOTOS =
        map (newPhoto ids createObjectURL files) [0..<3] @ drop 3 DEFAULT_PHOTOS
      \<and> length (handlePhotoUpload ids createObjectURL (Some files) DEFAULT_PHOTOS) = 8)
   \<and> (length files = 10 \<longrightarrow>
      handlePhotoUpload ids createObjectURL (Some files) DEFAULT_PHOTOS =
        map (newPhoto ids createObjectURL files) [0..<10]
      \<and> length (handlePhotoUpload ids createObjectURL (Some files) DEFAULT_PHOTOS) = 10)
   \<and> length DEFAULT_PHOTOS = 8 \<and> (\<forall>p\<in>set DEFAULT_PHOTOS. truthy (isPlaceholder p))
   \<and> length (handlePhotoUpload ids createObjectURL (Some files) prev) =
       length prev + (length files - placeholdersBetween prev 0 (length prev))
   \<and> (\<forall>j<length prev.
        handlePhotoUpload ids createObjectURL (Some files) prev ! j =
          (if truthy (isPlaceholder (prev ! j)) \<and> placeholdersBetween prev 0 j < length files
           then newPhoto ids createObjectURL files (placeholdersBetween prev 0 j)
           else prev ! j))
   \<and> drop (length prev) (handlePhotoUpload ids createObjectURL (Some files) prev) =
       map (newPhoto ids createObjectURL files)
         [placeholdersBetween prev 0 (length prev)..<length files]"
proof -
  have a: "length files = 3 \<longrightarrow>
      handlePhotoUpload ids createObjectURL (Some files) DEFAULT_PHOTOS =
        map (newPhoto ids createObjectURL files) [0..<3] @ drop 3 DEFAULT_PHOTOS
      \<and> length (handlePhotoUpload ids createObjectURL (Some files) DEFAULT_PHOTOS) = 8"
    by (simp add: upload_default_3 DEFAULT_PHOTOS_length)
  have b: "length files = 10 \<longrightarrow>
      handlePhotoUpload ids createObjectURL (Some files) DEFAULT_PHOTOS =
        map (newPhoto ids createObjectURL files) [0..<10]
      \<and> length (handlePhotoUpload ids createObjectURL (Some files) DEFAULT_PHOTOS) = 10"
    by (simp add: upload_default_10)
  have c: "\<forall>p\<in>set DEFAULT_PHOTOS. truthy (isPlaceholder p)"
    by (auto simp add: DEFAULT_PHOTOS_def truthy_def)
  note d = handlePhotoUpload_length [of ids createObjectURL files prev]
  have e: "\<forall>j<length prev.
        handlePhotoUpload ids createObjectURL (Some files) prev ! j =
          (if truthy (isPlaceholder (prev ! j)) \<and> placeholdersBetween prev 0 j < length files
           then newPhoto ids createObjectURL files (placeholdersBetween prev 0 j)
           else prev ! j)"
    by (simp add: handlePhotoUpload_nth)
  note f = handlePhotoUpload_drop [of prev ids createObjectURL files]
  from a b c d e f DEFAULT_PHOTOS_length show ?thesis by blast
qed

theorem C5_photo_upload_witness:
  "handlePhotoUpload (\<lambda>k. ''id'') (\<lambda>f. f) (Some [''a'', ''b'', ''c'']) DEFAULT_PHOTOS =
     [\<lparr>photoId = ''id'', url = ''a'', aspectRatio = 1, isPlaceholder = Some False\<rparr>,
      \<lparr>photoId = ''id'', url = ''b'', aspectRatio = 1, isPlaceholder = Some False\<rparr>,
      \<lparr>photoId = ''id'', url = ''c'', aspectRatio = 1, isPlaceholder = Some False\<rparr>]
     @ drop 3 DEFAULT_PHOTOS
   \<and> length (handlePhotoUpload (\<lambda>k. ''id'') (\<lambda>f. f) (Some [''a'', ''b'', ''c''])
        DEFAULT_PHOTOS) = 8"
proof -
  have "[0..<3] = [0, 1, 2]" by (simp add: upt_rec)
  moreover have "length [''a'', ''b'', ''c''] = 3" by simp
  ultimately show ?thesis
    using C5_photo_upload [of "[''a'', ''b'', ''c'']" "\<lambda>k. ''id''" "\<lambda>f. f" "[]"]
    by (simp add: newPhoto_def)
qed

section \<open>Properties of the gesture pipeline\<close>

lemma predictWebcam_no_refs:
  "\<not> refsSet g \<Longrightarrow> predictWebcam g t res = Inr (g, [])"
  by (auto simp add: predictWebcam_def refsSet_def)

lemma predictWebcam_same_time:
  "t = lastVideoTimeRef g \<Longrightarrow> predictWebcam g t res = Inr (g, [])"
  by (simp add: predictWebcam_def)

lemma predictWebcam_no_gestures:
  "gestures res = [] \<Longrightarrow> snd (settle (predictWebcam g t res)) = []"
  by (simp add: predictWebcam_def settle_def Let_def)

lemma predictWebcam_low_score:
  "gestures res = (c # cs) # hs \<Longrightarrow> \<not> score c > 0.5
     \<Longrightarrow> snd (settle (predictWebcam g t res)) = []"
  by (simp add: predictWebcam_def settle_def Let_def)

lemma predictWebcam_other_label:
  "gestures res = (c # cs) # hs \<Longrightarrow> categoryName c \<noteq> ''Open_Palm''
     \<Longrightarrow> categoryName c \<noteq> ''Closed_Fist''
     \<Longrightarrow> snd (settle (predictWebcam g t res)) = []"
  by (simp add: predictWebcam_def settle_def Let_def)

lemma predictWebcam_gather_only:
  assumes "GATHER \<in> set (snd (settle (predictWebcam g t res)))"
  shows "\<exists>c cs hs. gestures res = (c # cs) # hs \<and> score c > 0.5
           \<and> categoryName c = ''Closed_Fist''"
proof (cases "gestures res")
  case Nil
  with assms show ?thesis by (simp add: predictWebcam_no_gestures)
next
  case (Cons h hs)
  show ?thesis
  proof (cases h)
    case Nil
    with Cons assms show ?thesis
      by (simp add: predictWebcam_def settle_def Let_def split: if_splits)
  next
    case (Cons c cs)
    with \<open>gestures res = h # hs\<close> assms show ?thesis
      by (simp add: predictWebcam_def settle_def Let_def split: if_splits)
  qed
qed

lemma predictWebcam_open_palm:
  assumes "refsSet g" and "t \<noteq> lastVideoTimeRef g" and "openPalm res"
  shows "predictWebcam g t res =
     Inr (g\<lparr>lastVideoTimeRef := t, detectedGesture := ''Open_Palm''\<rparr>, [SCATTER])"
proof -
  from assms(3) obtain c cs hs where "gestures res = (c # cs) # hs" and "score c > 0.5"
    and "categoryName c = ''Open_Palm''"
    by (auto simp add: openPalm_def split: list.splits)
  with assms(1,2) show ?thesis
    by (simp add: predictWebcam_def refsSet_def Let_def)
qed

lemma processFrames_open_palm:
  assumes "refsSet g" and "\<forall>f\<in>set frames. openPalm (snd f)"
  shows "snd (processFrames g frames) =
     replicate (timestampChanges (lastVideoTimeRef g) (map fst frames)) SCATTER"
  using assms
proof (induction frames arbitrary: g)
  case Nil
  then show ?case by simp
next
  case (Cons f frames)
  obtain t res where f: "f = (t, res)" by (cases f)
  with Cons.prems have op: "openPalm res" by simp
  show ?case
  proof (cases "t = lastVideoTimeRef g")
    case True
    then have "predictWebcam g t res = Inr (g, [])" by (rule predictWebcam_same_time)
    with True f Cons show ?thesis by (simp add: split_beta)
  next
    case False
    let ?g = "g\<lparr>lastVideoTimeRef := t, detectedGesture := ''Open_Palm''\<rparr>"
    from Cons.prems(1) False op have "predictWebcam g t res = Inr (?g, [SCATTER])"
      by (rule predictWebcam_open_palm)
    moreover from Cons.prems(1) have "refsSet ?g" by (simp add: refsSet_def)
    moreover have "lastVideoTimeRef ?g = t" by simp
    ultimately show ?thesis
      using False f Cons.IH [of ?g] Cons.prems(2) by (simp add: split_beta)
  qed
qed

lemma predictWebcam_no_command:
  assumes "\<not> (\<exists>c cs hs. gestures res = (c # cs) # hs \<and> score c > 0.5
              \<and> (categoryName c = ''Open_Palm'' \<or> categoryName c = ''Closed_Fist''))"
  shows "snd (settle (predictWebcam g t res)) = []"
proof (cases "gestures res")
  case Nil
  then show ?thesis by (rule predictWebcam_no_gestures)
next
  case (Cons h hs)
  show ?thesis
  proof (cases h)
    case Nil
    with Cons show ?thesis
      by (simp add: predictWebcam_def settle_def Let_def)
  next
    case c: (Cons c cs)
    with Cons have g: "gestures res = (c # cs) # hs" by simp
    show ?thesis
    proof (cases "score c > 0.5")
      case True
      with assms g have "categoryName c \<noteq> ''Open_Palm''" and "categoryName c \<noteq> ''Closed_Fist''"
        by auto
      with g show ?thesis by (rule predictWebcam_other_label)
    next
      case False
      with g show ?thesis by (rule predictWebcam_low_score)
    qed
  qed
qed

text \<open>
  C4. A call of \<open>predictWebcam\<close> passes no command to \<open>onGesture\<close> unless the top-ranked
  category of the result has a score above 0.5 and is the open hand or the closed fist;
  GATHER is passed only for a closed fist above 0.5. A call whose refs are not all set, or
  whose timestamp is the last processed one, changes nothing and passes nothing. With the
  refs set, a new timestamp and an open hand above 0.5, the call passes exactly SCATTER
  and records the timestamp, and a second call with that timestamp passes nothing; over a
  sequence of open-hand frames the commands are one SCATTER for each change of timestamp.
\<close>

theorem C4_gesture_commands:
  "(\<not> (\<exists>c cs hs. gestures res = (c # cs) # hs \<and> score c > 0.5
          \<and> (categoryName c = ''Open_Palm'' \<or> categoryName c = ''Closed_Fist''))
      \<longrightarrow> snd (settle (predictWebcam g t res)) = [])
   \<and> (GATHER \<in> set (snd (settle (predictWebcam g t res)))
      \<longrightarrow> (\<exists>c cs hs. gestures res = (c # cs) # hs \<and> score c > 0.5
            \<and> categoryName c = ''Closed_Fist''))
   \<and> (\<not> refsSet g \<longrightarrow> predictWebcam g t res = Inr (g, []))
   \<and> (t = lastVideoTimeRef g \<longrightarrow> predictWebcam g t res = Inr (g, []))
   \<and> (refsSet g \<and> t \<noteq> lastVideoTimeRef g \<and> openPalm res
      \<longrightarrow> predictWebcam g t res =
            Inr (g\<lparr>lastVideoTimeRef := t, detectedGesture := ''Open_Palm''\<rparr>, [SCATTER])
          \<and> predictWebcam (g\<lparr>lastVideoTimeRef := t, detectedGesture := ''Open_Palm''\<rparr>) t res' =
            Inr (g\<lparr>lastVideoTimeRef := t, detectedGesture := ''Open_Palm''\<rparr>, []))
   \<and> (refsSet g \<and> (\<forall>f\<in>set frames. openPalm (snd f))
      \<longrightarrow> snd (processFrames g frames) =
            replicate (timestampChanges (lastVideoTimeRef g) (map fst frames)) SCATTER)"
proof -
  have a: "\<not> (\<exists>c cs hs. gestures res = (c # cs) # hs \<and> score c > 0.5
          \<and> (categoryName c = ''Open_Palm'' \<or> categoryName c = ''Closed_Fist''))
      \<longrightarrow> snd (settle (predictWebcam g t res)) = []"
    using predictWebcam_no_command [of res g t] by blast
  have b: "GATHER \<in> set (snd (settle (predictWebcam g t res)))
      \<longrightarrow> (\<exists>c cs hs. gestures res = (c # cs) # hs \<and> score c > 0.5
            \<and> categoryName c = ''Closed_Fist'')"
    using predictWebcam_gather_only [of g t res] by blast
  have c: "\<not> refsSet g \<longrightarrow> predictWebcam g t res = Inr (g, [])"
    by (simp add: predictWebcam_no_refs)
  have d: "t = lastVideoTimeRef g \<longrightarrow> predictWebcam g t res = Inr (g, [])"
    by (simp add: predictWebcam_same_time)
  have e: "refsSet g \<and> t \<noteq> lastVideoTimeRef g \<and> openPalm res
      \<longrightarrow> predictWebcam g t res =
            Inr (g\<lparr>lastVideoTimeRef := t, detectedGesture := ''Open_Palm''\<rparr>, [SCATTER])
          \<and> predictWebcam (g\<lparr>lastVideoTimeRef := t, detectedGesture := ''Open_Palm''\<rparr>) t res' =
            Inr (g\<lparr>lastVideoTimeRef := t, detectedGesture := ''Open_Palm''\<rparr>, [])"
    by (simp add: predictWebcam_open_palm predictWebcam_same_time)
  have f: "refsSet g \<and> (\<forall>f\<in>set frames. openPalm (snd f))
      \<longrightarrow> snd (processFrames g frames) =
            replicate (timestampChanges (lastVideoTimeRef g) (map fst frames)) SCATTER"
    by (simp add: processFrames_open_palm)
  from a b c d e f show ?thesis by blast
qed

theorem C4_gesture_commands_witness:
  "predictWebcam
     (initialGesture\<lparr>videoRef := True, canvasRef := True, recognizerRef := True\<rparr>) 0
     \<lparr>gestures = [[\<lparr>categoryName = ''Open_Palm'', score = 0.8\<rparr>]]\<rparr> =
     Inr (initialGesture\<lparr>videoRef := True, canvasRef := True, recognizerRef := True,
            lastVideoTimeRef := 0, detectedGesture := ''Open_Palm''\<rparr>, [SCATTER])
   \<and> snd (settle (predictWebcam
       (initialGesture\<lparr>videoRef := True, canvasRef := True, recognizerRef := True\<rparr>) 0
       \<lparr>gestures = [[\<lparr>categoryName = ''Open_Palm'', score = 0.4\<rparr>]]\<rparr>)) = []
   \<and> snd (processFrames
       (initialGesture\<lparr>videoRef := True, canvasRef := True, recognizerRef := True\<rparr>)
       [(0, \<lparr>gestures = [[\<lparr>categoryName = ''Open_Palm'', score = 0.8\<rparr>]]\<rparr>),
        (0, \<lparr>gestures = [[\<lparr>categoryName = ''Open_Palm'', score = 0.8\<rparr>]]\<rparr>),
        (1, \<lparr>gestures = [[\<lparr>categoryName = ''Open_Palm'', score = 0.8\<rparr>]]\<rparr>)])
      = [SCATTER, SCATTER]"
proof -
  let ?g = "initialGesture\<lparr>videoRef := True, canvasRef := True, recognizerRef := True\<rparr>"
  let ?hi = "\<lparr>gestures = [[\<lparr>categoryName = ''Open_Palm'', score = 0.8\<rparr>]]\<rparr>"
  let ?lo = "\<lparr>gestures = [[\<lparr>categoryName = ''Open_Palm'', score = 0.4\<rparr>]]\<rparr>"
  have r: "refsSet ?g" by (simp add: refsSet_def)
  have l: "lastVideoTimeRef ?g = - 1" by (simp add: initialGesture_def)
  have o: "openPalm ?hi" by (simp add: openPalm_def)
  from C4_gesture_commands [of ?hi ?g 0 ?hi "[]"] r l o
  have p1: "predictWebcam ?g 0 ?hi =
      Inr (?g\<lparr>lastVideoTimeRef := 0, detectedGesture := ''Open_Palm''\<rparr>, [SCATTER])"
    by simp
  from C4_gesture_commands [of ?lo ?g 0 ?lo "[]"]
  have p2: "snd (settle (predictWebcam ?g 0 ?lo)) = []"
    by simp
  let ?fs = "[(0, ?hi), (0, ?hi), (1, ?hi)]"
  have tc: "replicate (timestampChanges (lastVideoTimeRef ?g) (map fst ?fs)) SCATTER
      = [SCATTER, SCATTER]"
    by (simp add: l numeral_2_eq_2)
  have fs: "\<forall>f\<in>set ?fs. openPalm (snd f)"
    using o by simp
  from C4_gesture_commands [of ?hi ?g 0 ?hi ?fs] r fs
  have "snd (processFrames ?g ?fs) =
      replicate (timestampChanges (lastVideoTimeRef ?g) (map fst ?fs)) SCATTER"
    by blast
  with tc have p3: "snd (processFrames ?g ?fs) = [SCATTER, SCATTER]"
    by (simp only:)
  from p1 p2 p3 show ?thesis by (simp only: simp_thms)
qed

lemma gestureStep_unloaded:
  assumes "\<not> recognizerRef g" and "ev \<noteq> ModelLoad True"
  shows "snd (gestureStep ev g) = [] \<and> \<not> recognizerRef (fst (gestureStep ev g))"
proof (cases ev)
  case (ModelLoad ok)
  with assms show ?thesis by (simp add: loadModelEffect_def loadModel_def)
next
  case (CameraRequest granted)
  with assms show ?thesis by (simp add: startCamera_def)
next
  case (MetadataLoaded t res)
  with assms show ?thesis
    by (simp add: loadedmetadata_def predictWebcam_def settle_def)
next
  case (Frame t res)
  with assms show ?thesis by (simp add: predictWebcam_def settle_def)
next
  case CameraStop
  with assms show ?thesis by (simp add: stopCamera_def)
qed

lemma appStep_unloaded:
  assumes "\<not> recognizerRef (gesture a)" and "ev \<noteq> ModelLoad True"
  shows "appState (appStep (Gesture ev) a) = appState a
       \<and> smoothProgress (appStep (Gesture ev) a) = smoothProgress a
       \<and> \<not> recognizerRef (gesture (appStep (Gesture ev) a))"
  using gestureStep_unloaded [OF assms] by (simp add: split_beta)

lemma appSteps_unloaded:
  assumes "\<not> recognizerRef (gesture a)" and "ModelLoad True \<notin> set evs"
  shows "appState (fold appStep (map Gesture evs) a) = appState a
       \<and> smoothProgress (fold appStep (map Gesture evs) a) = smoothProgress a"
  using assms
proof (induction evs arbitrary: a)
  case Nil
  then show ?case by simp
next
  case (Cons ev evs)
  then have "ev \<noteq> ModelLoad True" and "ModelLoad True \<notin> set evs" by auto
  with Cons.prems(1) appStep_unloaded [of a ev] Cons.IH [of "appStep (Gesture ev) a"]
  show ?case by simp
qed

lemma load_failure_step:
  "gestureStep (ModelLoad False) g =
     ((if recognizerRef g then g else g\<lparr>loading := False\<rparr>), [])"
  by (simp add: loadModelEffect_def loadModel_def)

lemma camera_denied_step: "gestureStep (CameraRequest False) g = (g, [])"
  by (simp add: startCamera_def)

text \<open>
  C8. A failed model load passes no command, leaves no recognizer, and leaves the target
  state and the progress as they were; a denied camera request changes nothing at all.
  As long as no recognizer is loaded, no sequence of events of the gesture component
  changes the target state or the progress. The manual toggle flips the target state
  whatever the state of the gesture component is.
\<close>

theorem C8_gesture_failures:
  "snd (gestureStep (ModelLoad False) (gesture a)) = []
   \<and> recognizerRef (fst (gestureStep (ModelLoad False) (gesture a))) = recognizerRef (gesture a)
   \<and> appState (appStep (Gesture (ModelLoad False)) a) = appState a
   \<and> smoothProgress (appStep (Gesture (ModelLoad False)) a) = smoothProgress a
   \<and> gestureStep (CameraRequest False) (gesture a) = (gesture a, [])
   \<and> appStep (Gesture (CameraRequest False)) a = a
   \<and> (\<not> recognizerRef (gesture a) \<and> ModelLoad True \<notin> set evs
       \<longrightarrow> appState (fold appStep (map Gesture evs) a) = appState a
         \<and> smoothProgress (fold appStep (map Gesture evs) a) = smoothProgress a)
   \<and> appState (appStep ToggleClick (a\<lparr>gesture := g\<rparr>)) = toggleState (appState a)
   \<and> toggleState (appState a) \<noteq> appState a
   \<and> smoothProgress (appStep ToggleClick (a\<lparr>gesture := g\<rparr>)) = smoothProgress a"
proof -
  have p1: "snd (gestureStep (ModelLoad False) (gesture a)) = []
      \<and> recognizerRef (fst (gestureStep (ModelLoad False) (gesture a))) = recognizerRef (gesture a)"
    by (simp add: load_failure_step del: gestureStep.simps)
  have p2: "appState (appStep (Gesture (ModelLoad False)) a) = appState a
      \<and> smoothProgress (appStep (Gesture (ModelLoad False)) a) = smoothProgress a"
    by (simp add: load_failure_step del: gestureStep.simps)
  have p3: "gestureStep (CameraRequest False) (gesture a) = (gesture a, [])"
    by (rule camera_denied_step)
  have p4: "appStep (Gesture (CameraRequest False)) a = a"
    by (simp add: camera_denied_step del: gestureStep.simps)
  have p5: "\<not> recognizerRef (gesture a) \<and> ModelLoad True \<notin> set evs
       \<longrightarrow> appState (fold appStep (map Gesture evs) a) = appState a
         \<and> smoothProgress (fold appStep (map Gesture evs) a) = smoothProgress a"
    using appSteps_unloaded [of a evs] by blast
  have p6: "appState (appStep ToggleClick (a\<lparr>gesture := g\<rparr>)) = toggleState (appState a)
      \<and> toggleState (appState a) \<noteq> appState a
      \<and> smoothProgress (appStep ToggleClick (a\<lparr>gesture := g\<rparr>)) = smoothProgress a"
    by (cases "appState a") (simp_all add: toggleState_def)
  from p1 p2 p3 p4 p5 p6 show ?thesis by blast
qed

theorem C8_gesture_failures_witness:
  "appState (fold appStep
      (map Gesture
         [ModelLoad False, CameraRequest True,
          Frame 0 \<lparr>gestures = [[\<lparr>categoryName = ''Open_Palm'', score = 0.8\<rparr>]]\<rparr>])
      \<lparr>appState = TREE, smoothProgress = 0, photos = DEFAULT_PHOTOS,
        gesture = initialGesture\<rparr>) = TREE
   \<and> appState (appStep ToggleClick
      \<lparr>appState = TREE, smoothProgress = 0, photos = DEFAULT_PHOTOS,
        gesture = initialGesture\<rparr>) = SCATTERED"
proof -
  let ?a = "\<lparr>appState = TREE, smoothProgress = 0, photos = DEFAULT_PHOTOS,
        gesture = initialGesture\<rparr>"
  let ?evs = "[ModelLoad False, CameraRequest True,
          Frame 0 \<lparr>gestures = [[\<lparr>categoryName = ''Open_Palm'', score = 0.8\<rparr>]]\<rparr>]"
  have h: "\<not> recognizerRef (gesture ?a) \<and> ModelLoad True \<notin> set ?evs"
    by (simp add: initialGesture_def)
  from C8_gesture_failures [of ?a ?evs initialGesture] h
  have "appState (fold appStep (map Gesture ?evs) ?a) = appState ?a"
    by blast
  moreover from C8_gesture_failures [of ?a ?evs initialGesture]
  have "appState (appStep ToggleClick (?a\<lparr>gesture := initialGesture\<rparr>)) = toggleState (appState ?a)"
    by blast
  ultimately show ?thesis by (simp add: toggleState_def)
qed

end
